theory Spec2Isabelle
  imports Main
begin

section \<open>Data model\<close>

text \<open>
  The status enumeration \<^verbatim>\<open>InvoiceStatus\<close> is imported by every service and route;
  its four members are the ones the code uses (\<^verbatim>\<open>InvoiceStatus.PENDING\<close>,
  \<^verbatim>\<open>PAID\<close>, \<^verbatim>\<open>FAILED\<close>, \<^verbatim>\<open>EXPIRED\<close>).
\<close>

datatype InvoiceStatus = PENDING | PAID | FAILED | EXPIRED

text \<open>
  The entity \<^verbatim>\<open>Invoice\<close> (table \<^verbatim>\<open>invoices\<close>).  Dates are
  millisecond timestamps, nullable columns are options.  The primary key is called
  \<open>invoiceId\<close> here because \<open>id\<close> is the identity function of HOL.
\<close>

record Invoice =
  invoiceId :: string
  orderId :: string
  amount :: int
  status :: InvoiceStatus
  paymentType :: "string option"
  bank :: "string option"
  vaNumber :: "string option"
  expiredAt :: "int option"
  paidAt :: "int option"
  gateway :: string
  gatewayResponse :: "string option"
  createdAt :: int
  updatedAt :: int
  deletedAt :: "int option"
  paymentLink :: "string option"
  paymentLinkCreatedAt :: "int option"
  paymentAttemptCount :: int

text \<open>
  The body of a gateway notification (interface \<^verbatim>\<open>MidtransNotification\<close>, plus
  \<^verbatim>\<open>transaction_id\<close>, which the validator reads through the index signature).
  A property is a string or is missing.  \<^verbatim>\<open>order_id\<close>, \<^verbatim>\<open>status_code\<close> and
  \<^verbatim>\<open>gross_amount\<close> are printed into the string that is hashed, where a missing
  property and an empty one differ, so they are options (\<open>None\<close> is a missing
  property).  \<^verbatim>\<open>transaction_id\<close>, \<^verbatim>\<open>transaction_status\<close> and
  \<^verbatim>\<open>signature_key\<close> are only tested for truthiness, compared, or used after such a
  test; for them a missing property and an empty string are both the empty string.  The
  field \<^verbatim>\<open>bank\<close> of the body is \<open>bank_n\<close>, the entity already has a column
  of that name.
\<close>

record MidtransNotification =
  order_id :: "string option"
  transaction_id :: string
  transaction_status :: string
  payment_type :: "string option"
  bank_n :: "string option"
  va_number :: "string option"
  status_code :: "string option"
  gross_amount :: "string option"
  signature_key :: string

text \<open>
  \<^verbatim>\<open>!x\<close> on such a property: a missing one and the empty string are falsy.
  \<open>printed\<close> is the text of the property in a template literal or a string
  concatenation: the string itself, and \<^verbatim>\<open>undefined\<close> for a missing property.
  Where a handler passes a property on as a string (to a query, say) it has tested it
  before, and \<open>printed\<close> is that string.
\<close>

definition falsy :: "string option \<Rightarrow> bool" where
  "falsy p = (p = None \<or> p = Some [])"

definition printed :: "string option \<Rightarrow> string" where
  "printed p = (case p of None \<Rightarrow> ''undefined'' | Some s \<Rightarrow> s)"

text \<open>
  The optional \<^verbatim>\<open>paymentData\<close> argument of \<^verbatim>\<open>updateStatus\<close> and
  \<^verbatim>\<open>updateStatusByOrderId\<close>, which read the camel-case properties
  \<^verbatim>\<open>paymentType\<close>, \<^verbatim>\<open>bank\<close>, \<^verbatim>\<open>vaNumber\<close> and
  \<^verbatim>\<open>gatewayResponse\<close>.
\<close>

record PaymentData =
  pdPaymentType :: "string option"
  pdBank :: "string option"
  pdVaNumber :: "string option"
  pdGatewayResponse :: "string option"

text \<open>
  Functions of the JavaScript platform that the code calls and that are not part of the
  repository: the hex digest of SHA-512 (\<^verbatim>\<open>crypto.createHash('sha512')\<close>),
  \<^verbatim>\<open>JSON.stringify\<close> on a notification body, and \<^verbatim>\<open>Number\<close> on the
  amount string.  \<open>Number\<close> yields \<open>None\<close> for every string whose numeric
  value is not an integer (\<^verbatim>\<open>NaN\<close> included): such a value is never
  \<^verbatim>\<open>===\<close> to the integer column \<^verbatim>\<open>amount\<close>.  Every theorem below holds for
  all three functions, whatever they are.
\<close>

record Platform =
  sha512_hex :: "string \<Rightarrow> string"
  JSON_stringify :: "MidtransNotification \<Rightarrow> string"
  Number :: "string \<Rightarrow> int option"

text \<open>The configuration object \<^verbatim>\<open>midtransEnv\<close>.\<close>

record MidtransEnv =
  SERVER_KEY :: string
  IS_PRODUCTION :: bool

text \<open>
  The table is the list of its rows in insertion order.  An exception is the message of
  the thrown \<^verbatim>\<open>Error\<close>.
\<close>

type_synonym db = "Invoice list"
type_synonym error = string

datatype CasResult = SUCCESS | NOOP


section \<open>The repository (MikroOrmInvoiceRepository)\<close>

text \<open>
  \<^verbatim>\<open>em.findOne(Invoice, {id, deletedAt: null})\<close>: the first row that matches.
\<close>

definition findById :: "string \<Rightarrow> db \<Rightarrow> Invoice option" where
  "findById i d = find (\<lambda>r. invoiceId r = i \<and> deletedAt r = None) d"

definition findByOrderId :: "string \<Rightarrow> db \<Rightarrow> Invoice option" where
  "findByOrderId oid d = find (\<lambda>r. orderId r = oid \<and> deletedAt r = None) d"

text \<open>\<^verbatim>\<open>findWithLock\<close> is the same query with a pessimistic lock.\<close>

definition findWithLock :: "string \<Rightarrow> db \<Rightarrow> Invoice option" where
  "findWithLock i d = find (\<lambda>r. invoiceId r = i \<and> deletedAt r = None) d"

text \<open>
  A managed entity that was changed in memory is written back by \<^verbatim>\<open>flush\<close>: the
  row that \<^verbatim>\<open>findOne\<close> returned (the first match) is replaced.  The unit of work
  writes only an entity that differs from what was loaded, and the entity's
  \<^verbatim>\<open>onUpdate\<close> hook then sets \<^verbatim>\<open>updatedAt\<close>.
\<close>

fun update_first :: "('a \<Rightarrow> bool) \<Rightarrow> ('a \<Rightarrow> 'a) \<Rightarrow> 'a list \<Rightarrow> 'a list" where
  "update_first P f [] = []"
| "update_first P f (x # xs) = (if P x then f x # xs else x # update_first P f xs)"

definition flushed :: "int \<Rightarrow> Invoice \<Rightarrow> Invoice \<Rightarrow> Invoice" where
  "flushed now r r' = (if r' = r then r else r'\<lparr>updatedAt := now\<rparr>)"

text \<open>
  \<^verbatim>\<open>create\<close>: the duplicate check, then a new entity with the column defaults of
  the entity class (status \<^verbatim>\<open>PENDING\<close>, gateway \<^verbatim>\<open>'midtrans'\<close>, attempt
  count 0).  The primary key is assigned by the persistence layer and is a parameter.
  The unique indexes of the table (primary key, \<^verbatim>\<open>order_id\<close>) are not modelled:
  the model admits every table the database admits, and more.
\<close>

definition newInvoice :: "int \<Rightarrow> string \<Rightarrow> string \<Rightarrow> int \<Rightarrow> Invoice" where
  "newInvoice now newId oid amt =
     \<lparr>invoiceId = newId, orderId = oid, amount = amt, status = PENDING,
      paymentType = None, bank = None, vaNumber = None, expiredAt = None, paidAt = None,
      gateway = ''midtrans'', gatewayResponse = None, createdAt = now, updatedAt = now,
      deletedAt = None, paymentLink = None, paymentLinkCreatedAt = None,
      paymentAttemptCount = 0\<rparr>"

definition create :: "int \<Rightarrow> string \<Rightarrow> string \<Rightarrow> int \<Rightarrow> db \<Rightarrow> (error + Invoice) \<times> db" where
  "create now newId oid amt d =
     (case find (\<lambda>r. orderId r = oid \<and> deletedAt r = None) d of
        Some existing \<Rightarrow> (Inl ''INVOICE_ALREADY_EXISTS'', d)
      | None \<Rightarrow> (let invoice = newInvoice now newId oid amt in (Inr invoice, d @ [invoice])))"

text \<open>
  The assignments shared by \<^verbatim>\<open>updateStatus\<close> and
  \<^verbatim>\<open>updateStatusByOrderId\<close>.  The guard
  \<^verbatim>\<open>Object.values(InvoiceStatus).includes(status)\<close> holds for every member of the
  enumeration, so \<^verbatim>\<open>'Invalid Status'\<close> is not reachable with a typed status.
\<close>

definition applyStatus :: "int \<Rightarrow> InvoiceStatus \<Rightarrow> PaymentData option \<Rightarrow> Invoice \<Rightarrow> Invoice" where
  "applyStatus now st paymentData invoice =
     (let i1 = invoice\<lparr>status := st\<rparr> in
      case paymentData of
        None \<Rightarrow> i1
      | Some pd \<Rightarrow>
          (let i2 = i1\<lparr>paymentType := pdPaymentType pd, bank := pdBank pd,
                       vaNumber := pdVaNumber pd, gatewayResponse := pdGatewayResponse pd\<rparr>
           in if st = PAID then i2\<lparr>paidAt := Some now\<rparr> else i2))"

definition updateStatus ::
  "int \<Rightarrow> string \<Rightarrow> InvoiceStatus \<Rightarrow> PaymentData option \<Rightarrow> db \<Rightarrow> (error + Invoice) \<times> db" where
  "updateStatus now i st paymentData d =
     (case find (\<lambda>r. invoiceId r = i \<and> deletedAt r = None) d of
        None \<Rightarrow> (Inl ''Invoice not found'', d)
      | Some invoice \<Rightarrow>
          (let invoice' = flushed now invoice (applyStatus now st paymentData invoice)
           in (Inr invoice',
               update_first (\<lambda>r. invoiceId r = i \<and> deletedAt r = None) (\<lambda>r. invoice') d)))"

definition updateStatusByOrderId ::
  "int \<Rightarrow> string \<Rightarrow> InvoiceStatus \<Rightarrow> PaymentData option \<Rightarrow> db \<Rightarrow> (error + Invoice) \<times> db" where
  "updateStatusByOrderId now oid st paymentData d =
     (case find (\<lambda>r. orderId r = oid \<and> deletedAt r = None) d of
        None \<Rightarrow> (Inl (''Invoice with orderId '' @ oid @ '' not found''), d)
      | Some invoice \<Rightarrow>
          (let invoice' = flushed now invoice (applyStatus now st paymentData invoice)
           in (Inr invoice',
               update_first (\<lambda>r. orderId r = oid \<and> deletedAt r = None) (\<lambda>r. invoice') d)))"

text \<open>
  \<^verbatim>\<open>updateStatusAtomicFromPending\<close>: one \<^verbatim>\<open>nativeUpdate\<close>, a single
  \<^verbatim>\<open>UPDATE ... WHERE\<close> that writes \<^verbatim>\<open>updateData\<close> into every row
  satisfying the condition and returns the number of rows it changed.  The optional
  properties \<^verbatim>\<open>payment_type\<close>, \<^verbatim>\<open>bank\<close> and \<^verbatim>\<open>va_number\<close> of the
  body are assigned as they are: one that the body lacks gives the column no value.
\<close>

definition nativeUpdate :: "(Invoice \<Rightarrow> bool) \<Rightarrow> (Invoice \<Rightarrow> Invoice) \<Rightarrow> db \<Rightarrow> nat \<times> db" where
  "nativeUpdate cond upd d = (length (filter cond d), map (\<lambda>r. if cond r then upd r else r) d)"

definition updateData ::
  "Platform \<Rightarrow> int \<Rightarrow> InvoiceStatus \<Rightarrow> MidtransNotification option \<Rightarrow> Invoice \<Rightarrow> Invoice" where
  "updateData pf now newStatus paymentData r =
     (let r1 = r\<lparr>status := newStatus, updatedAt := now\<rparr> in
      case paymentData of
        None \<Rightarrow> r1
      | Some pd \<Rightarrow>
          (let r2 = r1\<lparr>paymentType := payment_type pd, bank := bank_n pd,
                       vaNumber := va_number pd,
                       gatewayResponse := Some (JSON_stringify pf pd)\<rparr>
           in if newStatus = PAID then r2\<lparr>paidAt := Some now\<rparr> else r2))"

definition updateStatusAtomicFromPending ::
  "Platform \<Rightarrow> int \<Rightarrow> string \<Rightarrow> InvoiceStatus \<Rightarrow> MidtransNotification option \<Rightarrow> db
     \<Rightarrow> CasResult \<times> db" where
  "updateStatusAtomicFromPending pf now oid newStatus paymentData d =
     (let (result, d') =
        nativeUpdate (\<lambda>r. orderId r = oid \<and> status r = PENDING \<and> deletedAt r = None)
                     (updateData pf now newStatus paymentData) d
      in (if result > 0 then SUCCESS else NOOP, d'))"

definition softDelete :: "int \<Rightarrow> string \<Rightarrow> db \<Rightarrow> (error + Invoice) \<times> db" where
  "softDelete now i d =
     (case find (\<lambda>r. invoiceId r = i \<and> deletedAt r = None) d of
        None \<Rightarrow> (Inl ''Invoice not found'', d)
      | Some invoice \<Rightarrow>
          (let invoice' = flushed now invoice (invoice\<lparr>deletedAt := Some now\<rparr>)
           in (Inr invoice',
               update_first (\<lambda>r. invoiceId r = i \<and> deletedAt r = None) (\<lambda>r. invoice') d)))"


section \<open>The state machine and the notification validator (midtrans.service)\<close>

text \<open>
  \<^verbatim>\<open>isValidStatusTransition\<close>: both copies (the exported one and the one beside
  \<^verbatim>\<open>callbackRoute\<close>) test \<^verbatim>\<open>currentStatus\<close> only; the parameter
  \<^verbatim>\<open>newStatus\<close> is not read.
\<close>

definition finalStatuses :: "InvoiceStatus list" where
  "finalStatuses = [PAID, FAILED, EXPIRED]"

definition isValidStatusTransition :: "InvoiceStatus \<Rightarrow> InvoiceStatus \<Rightarrow> bool" where
  "isValidStatusTransition currentStatus newStatus =
     (if currentStatus \<in> set finalStatuses then False else currentStatus = PENDING)"

definition isValidStatusTransition_callback :: "InvoiceStatus \<Rightarrow> InvoiceStatus \<Rightarrow> bool" where
  "isValidStatusTransition_callback currentStatus newStatus =
     (if currentStatus \<in> set finalStatuses then False
      else if currentStatus = PENDING then True
      else False)"

text \<open>
  \<^verbatim>\<open>verifySignature\<close> of midtrans.service (the route module of the older
  notification handler has the same function): the signature is the second argument, and
  the hashed string is the template literal
  \<^verbatim>\<open>`${order_id}${status_code}${gross_amount}${serverKey}`\<close>.
\<close>

definition verifySignature ::
  "Platform \<Rightarrow> MidtransEnv \<Rightarrow> MidtransNotification \<Rightarrow> string \<Rightarrow> bool" where
  "verifySignature pf env notification signature =
     (if \<not> IS_PRODUCTION env then True
      else sha512_hex pf (printed (order_id notification) @ printed (status_code notification) @
                          printed (gross_amount notification) @ SERVER_KEY env) = signature)"

text \<open>
  \<^verbatim>\<open>verifySignature\<close> of the module that holds \<^verbatim>\<open>callbackRoute\<close>: it takes
  the signature from the body, refuses a body with an empty field, and does not read
  \<^verbatim>\<open>IS_PRODUCTION\<close>.
\<close>

definition verifySignature_callback ::
  "Platform \<Rightarrow> MidtransEnv \<Rightarrow> MidtransNotification \<Rightarrow> bool" where
  "verifySignature_callback pf env notification =
     (if falsy (order_id notification) \<or> falsy (status_code notification) \<or>
         falsy (gross_amount notification) \<or> signature_key notification = [] then False
      else sha512_hex pf (printed (order_id notification) @ printed (status_code notification) @
                          printed (gross_amount notification) @ SERVER_KEY env)
           = signature_key notification)"

definition validateWebhookRequest :: "MidtransNotification \<Rightarrow> string option" where
  "validateWebhookRequest notification =
     (if falsy (order_id notification) \<or> transaction_status notification = [] then
        Some ''Notifikasi tidak valid: order_id dan transaction_status diperlukan''
      else if transaction_id notification = [] then
        Some ''Notifikasi tidak valid: transaction_id diperlukan''
      else if falsy (gross_amount notification) then
        Some ''Notifikasi tidak valid: gross_amount diperlukan''
      else None)"

text \<open>
  \<^verbatim>\<open>validatePaymentRules\<close> returns a message or \<^verbatim>\<open>null\<close>.  The first message
  interpolates the two amounts; the model keeps the interpolated values.
  \<^verbatim>\<open>Number\<close> of a missing property is \<^verbatim>\<open>NaN\<close>.
\<close>

definition numberOf :: "Platform \<Rightarrow> string option \<Rightarrow> int option" where
  "numberOf pf p = (case p of None \<Rightarrow> None | Some s \<Rightarrow> Number pf s)"

datatype PaymentRuleError =
    AmountMismatch int "int option"
  | AlreadyPaid
  | InvoiceExpired
  | InvalidStatusForPayment InvoiceStatus

definition validatePaymentRules ::
  "Platform \<Rightarrow> Invoice \<Rightarrow> MidtransNotification \<Rightarrow> PaymentRuleError option" where
  "validatePaymentRules pf invoice notification =
     (let invoiceAmount = amount invoice;
          paidAmount = numberOf pf (gross_amount notification)
      in if paidAmount \<noteq> Some invoiceAmount then Some (AmountMismatch invoiceAmount paidAmount)
         else if status invoice = PAID then Some AlreadyPaid
         else if status invoice = EXPIRED then Some InvoiceExpired
         else if status invoice \<noteq> PENDING \<and> status invoice \<noteq> FAILED then
           Some (InvalidStatusForPayment (status invoice))
         else None)"

definition mapMidtransStatusToInvoice :: "string \<Rightarrow> InvoiceStatus option" where
  "mapMidtransStatusToInvoice transactionStatus =
     (if transactionStatus = ''settlement'' \<or> transactionStatus = ''capture'' then Some PAID
      else if transactionStatus = ''pending'' then Some PENDING
      else if transactionStatus = ''expire'' \<or> transactionStatus = ''cancel'' then Some EXPIRED
      else if transactionStatus = ''deny'' \<or> transactionStatus = ''failure'' then Some FAILED
      else None)"


section \<open>The notification handlers\<close>

text \<open>
  A response \<^verbatim>\<open>c.json(body, code)\<close>.  Timestamps inside a body
  (\<^verbatim>\<open>processedAt\<close>, \<^verbatim>\<open>timestamp\<close>) are left out.
\<close>

datatype ResponseBody =
    ErrorBody string
  | RuleErrorBody PaymentRuleError
  | Received
  | SuccessMessage string
  | SuccessInvoice "Invoice option"
  | PaymentUrl "string option" string int
  | PaymentLinkCreated "string option" string string int

datatype Response = Json ResponseBody nat

fun httpCode :: "Response \<Rightarrow> nat" where
  "httpCode (Json b c) = c"

fun responseBody :: "Response \<Rightarrow> ResponseBody" where
  "responseBody (Json b c) = b"

text \<open>
  The parsed request: the JSON body (\<open>Inl\<close> the message of the parse error) and the two
  signature headers.
\<close>

record WebhookRequest =
  req_json :: "string + MidtransNotification"
  x_signature :: "string option"
  x_midtrans_signature :: "string option"

text \<open>
  \<^verbatim>\<open>c.req.header('x-signature') || c.req.header('x-midtrans-signature') || ''\<close>
\<close>

definition headerSignature :: "WebhookRequest \<Rightarrow> string" where
  "headerSignature req =
     (case x_signature req of
        Some s \<Rightarrow> (if s \<noteq> [] then s
                   else (case x_midtrans_signature req of Some t \<Rightarrow> t | None \<Rightarrow> []))
      | None \<Rightarrow> (case x_midtrans_signature req of Some t \<Rightarrow> t | None \<Rightarrow> []))"

text \<open>The store together with the module-level set \<^verbatim>\<open>processedNotifications\<close>.\<close>

record WebhookState =
  invoices :: db
  processedNotifications :: "string set"

text \<open>\<^verbatim>\<open>String.prototype.includes\<close>\<close>

fun str_includes :: "string \<Rightarrow> string \<Rightarrow> bool" where
  "str_includes [] sub = (sub = [])"
| "str_includes (c # cs) sub = (take (length sub) (c # cs) = sub \<or> str_includes cs sub)"

text \<open>The \<^verbatim>\<open>catch\<close> block of \<^verbatim>\<open>midtransRoute\<close>, on the message of the error.\<close>

definition catchResponse :: "string \<Rightarrow> Response" where
  "catchResponse message =
     (if str_includes message ''Invoice with orderId'' \<and> str_includes message ''not found'' then
        Json (ErrorBody ''Invoice tidak ditemukan'') 404
      else if str_includes message ''Invalid Status'' then
        Json (ErrorBody ''Status pembayaran tidak valid'') 400
      else if str_includes message ''Database not initialized'' then
        Json (ErrorBody ''Layanan tidak tersedia'') 503
      else Json (ErrorBody ''Gagal memproses notifikasi pembayaran'') 500)"

definition notificationId :: "MidtransNotification \<Rightarrow> string" where
  "notificationId notification =
     printed (order_id notification) @ ''_'' @ transaction_id notification @ ''_'' @
     transaction_status notification"

text \<open>
  \<^verbatim>\<open>midtransRoute.post('/notification')\<close> of routes/midtrans.route.ts.  The handler
  reads the invoice and later issues the conditional update; between the two storage
  calls other requests may write.  Their effect on the table is the parameter
  \<open>concurrent\<close> (the identity when the handler runs alone).
\<close>

definition midtransRoute_notification ::
  "Platform \<Rightarrow> MidtransEnv \<Rightarrow> int \<Rightarrow> (db \<Rightarrow> db) \<Rightarrow> WebhookRequest \<Rightarrow> WebhookState
     \<Rightarrow> Response \<times> WebhookState" where
  "midtransRoute_notification pf env now concurrent req st =
     (case req_json req of
        Inl message \<Rightarrow> (catchResponse message, st)
      | Inr notification \<Rightarrow>
     (case validateWebhookRequest notification of
        Some validationError \<Rightarrow> (Json (ErrorBody validationError) 400, st)
      | None \<Rightarrow>
     if IS_PRODUCTION env \<and> \<not> verifySignature pf env notification (headerSignature req) then
       (Json (ErrorBody ''Unauthorized'') 401, st)
     else if notificationId notification \<in> processedNotifications st then
       (Json (SuccessMessage ''Sudah diproses'') 200, st)
     else
     (case findByOrderId (printed (order_id notification)) (invoices st) of
        None \<Rightarrow> (Json (ErrorBody ''Invoice tidak ditemukan'') 404, st)
      | Some invoice \<Rightarrow>
     (case validatePaymentRules pf invoice notification of
        Some businessRuleError \<Rightarrow> (Json (RuleErrorBody businessRuleError) 400, st)
      | None \<Rightarrow>
     (case mapMidtransStatusToInvoice (transaction_status notification) of
        None \<Rightarrow>
          (catchResponse (''Unknown transaction status: '' @ transaction_status notification), st)
      | Some newStatus \<Rightarrow>
     if \<not> isValidStatusTransition (status invoice) newStatus then
       (Json (SuccessMessage ''Status transition not allowed'') 200, st)
     else if status invoice = newStatus then
       (Json (SuccessMessage ''Status already set - idempotent'') 200, st)
     else
     (case updateStatusAtomicFromPending pf now (printed (order_id notification)) newStatus
             (Some notification) (concurrent (invoices st)) of
        (NOOP, d') \<Rightarrow>
          (Json (SuccessMessage ''No operation performed'') 200, st\<lparr>invoices := d'\<rparr>)
      | (SUCCESS, d') \<Rightarrow>
          (Json (SuccessInvoice (findByOrderId (printed (order_id notification)) d')) 200,
           \<lparr>invoices = d',
            processedNotifications =
              insert (notificationId notification) (processedNotifications st)\<rparr>)))))))"

text \<open>
  The older \<^verbatim>\<open>midtransRoute.post('/notification')\<close> (the route module that defines
  its own validators): no transition guard, and a \<^verbatim>\<open>NOOP\<close> is thrown as
  \<^verbatim>\<open>'Invoice not in PENDING state'\<close> into the \<^verbatim>\<open>catch\<close> block.
\<close>

definition midtransRoute_notification_old ::
  "Platform \<Rightarrow> MidtransEnv \<Rightarrow> int \<Rightarrow> (db \<Rightarrow> db) \<Rightarrow> WebhookRequest \<Rightarrow> WebhookState
     \<Rightarrow> Response \<times> WebhookState" where
  "midtransRoute_notification_old pf env now concurrent req st =
     (case req_json req of
        Inl message \<Rightarrow> (catchResponse message, st)
      | Inr notification \<Rightarrow>
     (case validateWebhookRequest notification of
        Some validationError \<Rightarrow> (Json (ErrorBody validationError) 400, st)
      | None \<Rightarrow>
     if IS_PRODUCTION env \<and> \<not> verifySignature pf env notification (headerSignature req) then
       (Json (ErrorBody ''Unauthorized'') 401, st)
     else if notificationId notification \<in> processedNotifications st then
       (Json (SuccessMessage ''Sudah diprosesupdatedInvoice'') 200, st)
     else
     (case findByOrderId (printed (order_id notification)) (invoices st) of
        None \<Rightarrow> (Json (ErrorBody ''Invoice tidak ditemukan'') 404, st)
      | Some invoice \<Rightarrow>
     (case validatePaymentRules pf invoice notification of
        Some businessRuleError \<Rightarrow> (Json (RuleErrorBody businessRuleError) 400, st)
      | None \<Rightarrow>
     (case mapMidtransStatusToInvoice (transaction_status notification) of
        None \<Rightarrow>
          (catchResponse (''Unknown transaction status: '' @ transaction_status notification), st)
      | Some newStatus \<Rightarrow>
     (case updateStatusAtomicFromPending pf now (printed (order_id notification)) newStatus
             (Some notification) (concurrent (invoices st)) of
        (NOOP, d') \<Rightarrow> (catchResponse ''Invoice not in PENDING state'', st\<lparr>invoices := d'\<rparr>)
      | (SUCCESS, d') \<Rightarrow>
          (Json (SuccessInvoice (findByOrderId (printed (order_id notification)) d')) 200,
           \<lparr>invoices = d',
            processedNotifications =
              insert (notificationId notification) (processedNotifications st)\<rparr>)))))))"

text \<open>
  \<^verbatim>\<open>callbackRoute.post('/notification')\<close>, the handler the application mounts
  under \<^verbatim>\<open>/midtrans\<close>.  A body that does not parse is \<^verbatim>\<open>null\<close>; every
  later exit, the \<^verbatim>\<open>catch\<close> block included, answers
  \<^verbatim>\<open>{ received: true }\<close> with code 200.  It keeps no set of processed
  notifications.
\<close>

definition callbackRoute_notification ::
  "Platform \<Rightarrow> MidtransEnv \<Rightarrow> int \<Rightarrow> (db \<Rightarrow> db) \<Rightarrow> WebhookRequest \<Rightarrow> db \<Rightarrow> Response \<times> db" where
  "callbackRoute_notification pf env now concurrent req d =
     (case req_json req of
        Inl message \<Rightarrow> (Json (ErrorBody ''Invalid JSON'') 400, d)
      | Inr body \<Rightarrow>
     if \<not> verifySignature_callback pf env body then (Json Received 200, d)
     else
     (case findByOrderId (printed (order_id body)) d of
        None \<Rightarrow> (Json Received 200, d)
      | Some invoice \<Rightarrow>
     (case mapMidtransStatusToInvoice (transaction_status body) of
        None \<Rightarrow> (Json Received 200, d)
      | Some newStatus \<Rightarrow>
     if \<not> isValidStatusTransition_callback (status invoice) newStatus then (Json Received 200, d)
     else if status invoice = newStatus then (Json Received 200, d)
     else
     (case updateStatusAtomicFromPending pf now (printed (order_id body)) newStatus (Some body)
             (concurrent d) of
        (NOOP, d') \<Rightarrow> (Json Received 200, d')
      | (SUCCESS, d') \<Rightarrow> (Json Received 200, d')))))"


section \<open>The invoice service\<close>

subsection \<open>generatePaymentLink\<close>

text \<open>
  The request sent to the gateway.  \<^verbatim>\<open>order_id\<close> is the template string
  \<^verbatim>\<open>`${orderId.substring(0, 25)}-${paymentAttemptCount}`\<close>; the model keeps its two
  interpolated parts.  The answer of \<^verbatim>\<open>fetch\<close>: a rejected promise with its
  message, a response that is not \<^verbatim>\<open>ok\<close> (status and text, as they are printed
  into the error message), or a response carrying \<^verbatim>\<open>payment_url\<close>.
\<close>

record GatewayRequest =
  rq_order_prefix :: string
  rq_attempt :: int
  rq_gross_amount :: int
  rq_usage_limit :: int
  rq_expiry_minutes :: int

datatype FetchResult = FetchRejected string | ResponseNotOk string string | ResponseOk string

definition maxAge :: int where
  "maxAge = 30 * 60 * 1000"

text \<open>
  \<^verbatim>\<open>invoice.paymentLink && invoice.paymentLinkCreatedAt\<close> guards the computation
  of \<^verbatim>\<open>linkAge\<close>: the link must be a non-empty string and the timestamp not
  \<^verbatim>\<open>null\<close>.
\<close>

definition linkAge :: "int \<Rightarrow> Invoice \<Rightarrow> int option" where
  "linkAge now invoice =
     (case paymentLink invoice of
        None \<Rightarrow> None
      | Some link \<Rightarrow>
          (if link = [] then None
           else (case paymentLinkCreatedAt invoice of
                   None \<Rightarrow> None
                 | Some created \<Rightarrow> Some (now - created))))"

definition activeLink :: "int \<Rightarrow> Invoice \<Rightarrow> bool" where
  "activeLink now invoice =
     (case linkAge now invoice of None \<Rightarrow> False | Some age \<Rightarrow> age < maxAge)"

text \<open>
  Step 1, one transaction: the checks, then the attempt counter and the provisional
  timestamp.  A throw rolls the transaction back.
\<close>

definition generatePaymentLink_step1 :: "int \<Rightarrow> string \<Rightarrow> db \<Rightarrow> (error + Invoice) \<times> db" where
  "generatePaymentLink_step1 now i d =
     (case findById i d of
        None \<Rightarrow> (Inl ''Invoice Not Found'', d)
      | Some invoice \<Rightarrow>
          if status invoice = PAID then (Inl ''INVOICE_ALREADY_PAID'', d)
          else if status invoice = EXPIRED then (Inl ''INVOICE_EXPIRED'', d)
          else if paymentAttemptCount invoice \<ge> 3 then (Inl ''MAX_PAYMENT_ATTEMPTS_REACHED'', d)
          else if activeLink now invoice then (Inl ''ACTIVE_PAYMENT_LINK_EXISTS'', d)
          else
            (let invoice' = flushed now invoice
                   (invoice\<lparr>paymentAttemptCount :=
                              (if paymentAttemptCount invoice = 0 then 0
                               else paymentAttemptCount invoice) + 1,
                            paymentLinkCreatedAt := Some now\<rparr>)
             in (Inr invoice',
                 update_first (\<lambda>r. invoiceId r = i \<and> deletedAt r = None) (\<lambda>r. invoice') d)))"

definition gatewayRequest :: "Invoice \<Rightarrow> GatewayRequest" where
  "gatewayRequest invoice =
     \<lparr>rq_order_prefix = take 25 (orderId invoice), rq_attempt = paymentAttemptCount invoice,
      rq_gross_amount = amount invoice, rq_usage_limit = 1, rq_expiry_minutes = 30\<rparr>"

text \<open>Step 2: the result of the call is a payment URL or a thrown error.\<close>

definition callMidtrans :: "(GatewayRequest \<Rightarrow> FetchResult) \<Rightarrow> Invoice \<Rightarrow> error + string" where
  "callMidtrans fetch invoice =
     (case fetch (gatewayRequest invoice) of
        FetchRejected message \<Rightarrow> Inl message
      | ResponseNotOk code errorData \<Rightarrow> Inl (''Midtrans API error: '' @ code @ '' - '' @ errorData)
      | ResponseOk payment_url \<Rightarrow> Inr payment_url)"

text \<open>Step 3, one transaction: the link is stored on the invoice read again.\<close>

definition generatePaymentLink_step3 ::
  "int \<Rightarrow> string \<Rightarrow> string \<Rightarrow> db \<Rightarrow> (error + Invoice) \<times> db" where
  "generatePaymentLink_step3 now payment_url i d =
     (case findById i d of
        None \<Rightarrow> (Inl ''Invoice Not Found'', d)
      | Some updatedInvoice \<Rightarrow>
          (let invoice' = flushed now updatedInvoice
                            (updatedInvoice\<lparr>paymentLink := Some payment_url\<rparr>)
           in (Inr invoice',
               update_first (\<lambda>r. invoiceId r = i \<and> deletedAt r = None) (\<lambda>r. invoice') d)))"

text \<open>The \<^verbatim>\<open>catch\<close> block, one transaction: the timestamp is cleared.\<close>

definition generatePaymentLink_catch :: "int \<Rightarrow> string \<Rightarrow> db \<Rightarrow> db" where
  "generatePaymentLink_catch now i d =
     (case findById i d of
        None \<Rightarrow> d
      | Some failedInvoice \<Rightarrow>
          update_first (\<lambda>r. invoiceId r = i \<and> deletedAt r = None)
            (\<lambda>r. flushed now failedInvoice (failedInvoice\<lparr>paymentLinkCreatedAt := None\<rparr>)) d)"

text \<open>
  \<^verbatim>\<open>generatePaymentLink\<close>, the same in the repository-based service and in the
  legacy one.  \<open>now\<close> is the time of step 1 and \<open>later\<close> the time after the gateway
  call; \<open>during\<close> is what other requests write to the table while the call is in
  flight (no lock is held then).  Step 3 is inside the \<^verbatim>\<open>try\<close>, so its throw also
  reaches the \<^verbatim>\<open>catch\<close> block.
\<close>

definition generatePaymentLink ::
  "int \<Rightarrow> int \<Rightarrow> (GatewayRequest \<Rightarrow> FetchResult) \<Rightarrow> (db \<Rightarrow> db) \<Rightarrow> string \<Rightarrow> db
     \<Rightarrow> (error + Invoice) \<times> db" where
  "generatePaymentLink now later fetch during i d =
     (case generatePaymentLink_step1 now i d of
        (Inl e, d1) \<Rightarrow> (Inl e, d1)
      | (Inr invoice, d1) \<Rightarrow>
          (case callMidtrans fetch invoice of
             Inl e \<Rightarrow> (Inl e, generatePaymentLink_catch later i (during d1))
           | Inr payment_url \<Rightarrow>
               (case generatePaymentLink_step3 later payment_url i (during d1) of
                  (Inl e, d3) \<Rightarrow> (Inl e, generatePaymentLink_catch later i d3)
                | (Inr updatedInvoice, d3) \<Rightarrow> (Inr updatedInvoice, d3))))"

subsection \<open>The payment-link routes (invoice.route)\<close>

text \<open>
  \<^verbatim>\<open>POST /v1/payment-links\<close>, for a body whose \<^verbatim>\<open>order_id\<close> is a string
  (the schema refuses the empty one).  \<open>locks\<close> is the module-level set
  \<^verbatim>\<open>processingPaymentLinks\<close>; the key the handler adds is removed again in its
  \<^verbatim>\<open>finally\<close>, so the set is the same after the call.
  \<^verbatim>\<open>Math.ceil((maxAge - linkAge) / 1000)\<close> is written with the floor division of
  HOL.  A throw of \<^verbatim>\<open>generatePaymentLink\<close> reaches the outer \<^verbatim>\<open>catch\<close>.
\<close>

definition paymentLinksRoute ::
  "int \<Rightarrow> int \<Rightarrow> (GatewayRequest \<Rightarrow> FetchResult) \<Rightarrow> (db \<Rightarrow> db) \<Rightarrow> string set \<Rightarrow> string \<Rightarrow> db
     \<Rightarrow> Response \<times> db" where
  "paymentLinksRoute now later fetch during locks order_id_in d =
     (if order_id_in = [] then (Json (ErrorBody ''order_id is required'') 400, d)
      else if (''payment_link_'' @ order_id_in) \<in> locks then
        (Json (ErrorBody ''Payment link generation is already in progress'') 429, d)
      else
        (case findByOrderId order_id_in d of
           None \<Rightarrow> (Json (ErrorBody ''Payment not found'') 404, d)
         | Some payment \<Rightarrow>
             if status payment = PAID then (Json (ErrorBody ''Payment already paid'') 409, d)
             else if status payment = EXPIRED then (Json (ErrorBody ''Payment expired'') 409, d)
             else if paymentAttemptCount payment \<ge> 3 then
               (Json (ErrorBody ''Maximum payment attempts reached'') 409, d)
             else
               (let generate =
                  (case generatePaymentLink now later fetch during (invoiceId payment) d of
                     (Inr updatedPayment, d') \<Rightarrow>
                       (Json (PaymentLinkCreated (paymentLink updatedPayment)
                                (orderId updatedPayment) (''PL-'' @ invoiceId updatedPayment)
                                (30 * 60)) 200, d')
                   | (Inl message, d') \<Rightarrow> (Json (ErrorBody ''Internal server error'') 500, d'))
                in case linkAge now payment of
                     None \<Rightarrow> generate
                   | Some age \<Rightarrow>
                       if age < maxAge then
                         (Json (PaymentUrl (paymentLink payment) (orderId payment)
                                  (- ((- (maxAge - age)) div 1000))) 200, d)
                       else generate)))"

subsection \<open>handleMidtransCallback\<close>

text \<open>
  The \<^verbatim>\<open>switch\<close> over the vendor status is the table of
  \<^verbatim>\<open>mapMidtransStatusToInvoice\<close> with \<^verbatim>\<open>'INVALID_TRANSACTION_STATUS'\<close>
  thrown in the default case.  The repository-based service looks the invoice up with
  \<^verbatim>\<open>findWithLock(orderId)\<close>, a query on the primary key; the legacy service queries
  the column \<^verbatim>\<open>orderId\<close>.
\<close>

definition callbackAssign ::
  "Platform \<Rightarrow> int \<Rightarrow> InvoiceStatus \<Rightarrow> MidtransNotification \<Rightarrow> Invoice \<Rightarrow> Invoice" where
  "callbackAssign pf now newStatus rawResponse invoice =
     (let i1 = invoice\<lparr>status := newStatus,
                       gatewayResponse := Some (JSON_stringify pf rawResponse)\<rparr>
      in if newStatus = PAID then i1\<lparr>paidAt := Some now\<rparr> else i1)"

definition handleMidtransCallback ::
  "Platform \<Rightarrow> int \<Rightarrow> string \<Rightarrow> string \<Rightarrow> MidtransNotification \<Rightarrow> db \<Rightarrow> (error + Invoice) \<times> db" where
  "handleMidtransCallback pf now orderId_in transactionStatus rawResponse d =
     (if orderId_in = [] \<or> transactionStatus = [] then (Inl ''INVALID_CALLBACK_DATA'', d)
      else
        (case findWithLock orderId_in d of
           None \<Rightarrow> (Inl ''INVOICE_NOT_FOUND'', d)
         | Some invoice \<Rightarrow>
             (case mapMidtransStatusToInvoice transactionStatus of
                None \<Rightarrow> (Inl ''INVALID_TRANSACTION_STATUS'', d)
              | Some newStatus \<Rightarrow>
                  if status invoice = newStatus then (Inr invoice, d)
                  else
                    (let invoice' = flushed now invoice
                                      (callbackAssign pf now newStatus rawResponse invoice)
                     in (Inr invoice',
                         update_first (\<lambda>r. invoiceId r = orderId_in \<and> deletedAt r = None)
                           (\<lambda>r. invoice') d)))))"

definition handleMidtransCallback_legacy ::
  "Platform \<Rightarrow> int \<Rightarrow> string \<Rightarrow> string \<Rightarrow> MidtransNotification \<Rightarrow> db \<Rightarrow> (error + Invoice) \<times> db" where
  "handleMidtransCallback_legacy pf now orderId_in transactionStatus rawResponse d =
     (if orderId_in = [] \<or> transactionStatus = [] then (Inl ''INVALID_CALLBACK_DATA'', d)
      else
        (case find (\<lambda>r. orderId r = orderId_in \<and> deletedAt r = None) d of
           None \<Rightarrow> (Inl ''INVOICE_NOT_FOUND'', d)
         | Some invoice \<Rightarrow>
             (case mapMidtransStatusToInvoice transactionStatus of
                None \<Rightarrow> (Inl ''INVALID_TRANSACTION_STATUS'', d)
              | Some newStatus \<Rightarrow>
                  if status invoice = newStatus then (Inr invoice, d)
                  else
                    (let invoice' = flushed now invoice
                                      (callbackAssign pf now newStatus rawResponse invoice)
                     in (Inr invoice',
                         update_first (\<lambda>r. orderId r = orderId_in \<and> deletedAt r = None)
                           (\<lambda>r. invoice') d)))))"


section \<open>Sequences of storage transactions\<close>

text \<open>
  Every write the services issue is one of the following transactions (or, for the
  conditional update, one statement).  A history in which no transaction overlaps
  another is a list of them.
\<close>

datatype StoreOp =
    Create int string string int
  | UpdateStatus int string InvoiceStatus "PaymentData option"
  | UpdateStatusByOrderId int string InvoiceStatus "PaymentData option"
  | UpdateStatusAtomicFromPending int string InvoiceStatus "MidtransNotification option"
  | SoftDelete int string
  | LinkStep1 int string
  | LinkStep3 int string string
  | LinkCatch int string
  | HandleCallback int string string MidtransNotification
  | HandleCallbackLegacy int string string MidtransNotification

fun runOp :: "Platform \<Rightarrow> StoreOp \<Rightarrow> db \<Rightarrow> db" where
  "runOp pf (Create now newId oid amt) d = snd (create now newId oid amt d)"
| "runOp pf (UpdateStatus now i st pd) d = snd (updateStatus now i st pd d)"
| "runOp pf (UpdateStatusByOrderId now oid st pd) d = snd (updateStatusByOrderId now oid st pd d)"
| "runOp pf (UpdateStatusAtomicFromPending now oid st pd) d =
     snd (updateStatusAtomicFromPending pf now oid st pd d)"
| "runOp pf (SoftDelete now i) d = snd (softDelete now i d)"
| "runOp pf (LinkStep1 now i) d = snd (generatePaymentLink_step1 now i d)"
| "runOp pf (LinkStep3 now url i) d = snd (generatePaymentLink_step3 now url i d)"
| "runOp pf (LinkCatch now i) d = generatePaymentLink_catch now i d"
| "runOp pf (HandleCallback now oid ts raw) d = snd (handleMidtransCallback pf now oid ts raw d)"
| "runOp pf (HandleCallbackLegacy now oid ts raw) d =
     snd (handleMidtransCallback_legacy pf now oid ts raw d)"

fun runOps :: "Platform \<Rightarrow> StoreOp list \<Rightarrow> db \<Rightarrow> db" where
  "runOps pf [] d = d"
| "runOps pf (op # ops) d = runOps pf ops (runOp pf op d)"

subsection \<open>Step 1 with other writers between its read and its flush\<close>

text \<open>
  Step 1 of \<^verbatim>\<open>generatePaymentLink\<close> is the one transaction that writes the attempt
  counter from a value it read.  Its comments announce a lock
  (\<^verbatim>\<open>SELECT FOR UPDATE untuk lock invoice\<close>, \<^verbatim>\<open>Validate dan lock invoice\<close>), but
  the read is \<^verbatim>\<open>em.findOne(Invoice, { id, deletedAt: null })\<close>, respectively
  \<^verbatim>\<open>txRepo.findById(id)\<close>, with no lock mode, so other requests can commit between
  the read and the flush.  The checks are made on the entity as it was read;
  \<^verbatim>\<open>flush\<close> then writes the assigned columns to the row with the primary key of
  that entity: the counter read plus one, the timestamp, and \<^verbatim>\<open>updatedAt\<close>.
\<close>

definition generatePaymentLink_step1_guard :: "int \<Rightarrow> Invoice \<Rightarrow> error option" where
  "generatePaymentLink_step1_guard now invoice =
     (if status invoice = PAID then Some ''INVOICE_ALREADY_PAID''
      else if status invoice = EXPIRED then Some ''INVOICE_EXPIRED''
      else if paymentAttemptCount invoice \<ge> 3 then Some ''MAX_PAYMENT_ATTEMPTS_REACHED''
      else if activeLink now invoice then Some ''ACTIVE_PAYMENT_LINK_EXISTS''
      else None)"

definition generatePaymentLink_step1_flush :: "int \<Rightarrow> Invoice \<Rightarrow> db \<Rightarrow> db" where
  "generatePaymentLink_step1_flush now invoice d =
     map (\<lambda>r. if invoiceId r = invoiceId invoice
              then r\<lparr>paymentAttemptCount :=
                        (if paymentAttemptCount invoice = 0 then 0
                         else paymentAttemptCount invoice) + 1,
                      paymentLinkCreatedAt := Some now, updatedAt := now\<rparr>
              else r) d"

text \<open>
  A history at this finer granularity: whole transactions, reads of Step 1 (the entity
  read is kept with the pending requests) and flushes of Step 1 (of the \<open>k\<close>-th entity
  read, after its checks).  A read that finds no invoice and a flush whose checks throw
  write nothing.
\<close>

datatype FineOp = Transaction StoreOp | Step1Read string | Step1Flush int nat

fun runFine :: "Platform \<Rightarrow> FineOp \<Rightarrow> db \<times> Invoice list \<Rightarrow> db \<times> Invoice list" where
  "runFine pf (Transaction op) (d, reads) = (runOp pf op d, reads)"
| "runFine pf (Step1Read i) (d, reads) =
     (case findById i d of None \<Rightarrow> (d, reads) | Some invoice \<Rightarrow> (d, reads @ [invoice]))"
| "runFine pf (Step1Flush now k) (d, reads) =
     (if k < length reads \<and> generatePaymentLink_step1_guard now (reads ! k) = None
      then (generatePaymentLink_step1_flush now (reads ! k) d, reads)
      else (d, reads))"

fun runFines :: "Platform \<Rightarrow> FineOp list \<Rightarrow> db \<times> Invoice list \<Rightarrow> db \<times> Invoice list" where
  "runFines pf [] s = s"
| "runFines pf (op # ops) s = runFines pf ops (runFine pf op s)"


section \<open>A concrete platform for evaluation\<close>

text \<open>
  The theorems quantify over the platform.  Where a statement is evaluated at a concrete
  input, the three functions are fixed as follows: the digest is a stand-in that tags its
  input (two inputs have the same digest only if they are equal, which is all the code
  asks of a digest), the serialisation prints the order id, and \<open>Number\<close> reads a
  string of decimal digits.
\<close>

definition decimalNumber :: "string \<Rightarrow> int option" where
  "decimalNumber s =
     (if s \<noteq> [] \<and> (\<forall>c \<in> set s. c \<in> set ''0123456789'') then
        Some (foldl (\<lambda>a c. 10 * a + (of_char c - 48)) 0 s)
      else None)"

definition evalPlatform :: Platform where
  "evalPlatform =
     \<lparr>sha512_hex = (\<lambda>s. ''sha512:'' @ s),
      JSON_stringify = (\<lambda>n. ''{order_id:'' @ printed (order_id n) @ ''}''),
      Number = decimalNumber\<rparr>"

text \<open>Concrete rows and notifications used where a statement is evaluated.\<close>

definition ex_row :: Invoice where
  "ex_row = newInvoice 1000 ''id-1'' ''ORD-1'' 100000"

definition ex_note :: MidtransNotification where
  "ex_note =
     \<lparr>order_id = Some ''ORD-1'', transaction_id = ''tx-1'', transaction_status = ''settlement'',
      payment_type = Some ''bank_transfer'', bank_n = Some ''bca'', va_number = Some ''123'',
      status_code = Some ''200'', gross_amount = Some ''100000'', signature_key = []\<rparr>"


definition sandboxEnv :: MidtransEnv where
  "sandboxEnv = \<lparr>SERVER_KEY = ''secret'', IS_PRODUCTION = False\<rparr>"

definition productionEnv :: MidtransEnv where
  "productionEnv = \<lparr>SERVER_KEY = ''secret'', IS_PRODUCTION = True\<rparr>"

text \<open>
  \<open>ex_note\<close> carries no signature.  \<open>ex_signed\<close> is the same notification signed
  for the key \<open>secret\<close> under the digest of \<open>evalPlatform\<close>; \<open>ex_underpaid\<close> is a
  correctly signed settlement over 90000 for the invoice of 100000.
\<close>

definition ex_signed :: MidtransNotification where
  "ex_signed = ex_note\<lparr>signature_key := ''sha512:ORD-1200100000secret''\<rparr>"

definition ex_underpaid :: MidtransNotification where
  "ex_underpaid =
     ex_note\<lparr>gross_amount := Some ''90000'', signature_key := ''sha512:ORD-120090000secret''\<rparr>"

text \<open>
  \<open>ex_no_status_code\<close> has an empty status code and is signed accordingly: its
  signature is the digest of the concatenation.
\<close>

definition ex_no_status_code :: MidtransNotification where
  "ex_no_status_code =
     ex_note\<lparr>status_code := Some [], signature_key := ''sha512:ORD-1100000secret''\<rparr>"

text \<open>
  \<open>ex_missing_status_code\<close> has no status code at all; the template literal prints
  \<^verbatim>\<open>undefined\<close> in its place.
\<close>

definition ex_missing_status_code :: MidtransNotification where
  "ex_missing_status_code = ex_note\<lparr>status_code := None\<rparr>"

definition ex_paid_row :: Invoice where
  "ex_paid_row = ex_row\<lparr>status := PAID, paidAt := Some 2000, updatedAt := 2000\<rparr>"

definition webhook :: "MidtransNotification \<Rightarrow> WebhookRequest" where
  "webhook n = \<lparr>req_json = Inr n, x_signature = None, x_midtrans_signature = None\<rparr>"

text \<open>A gateway that is down, and a paid invoice that has used its three attempts.\<close>

definition failingFetch :: "GatewayRequest \<Rightarrow> FetchResult" where
  "failingFetch rq = FetchRejected ''connect ETIMEDOUT''"


definition ex_exhausted_paid :: Invoice where
  "ex_exhausted_paid = ex_paid_row\<lparr>paymentAttemptCount := 3\<rparr>"

text \<open>
  An invoice with one attempt used and a link created at time 1500, and a gateway that
  answers with a link.
\<close>

definition ex_linked :: Invoice where
  "ex_linked =
     ex_row\<lparr>paymentLink := Some ''https://pay.example/1'', paymentLinkCreatedAt := Some 1500,
            paymentAttemptCount := 1, updatedAt := 1500\<rparr>"

definition answeringFetch :: "GatewayRequest \<Rightarrow> FetchResult" where
  "answeringFetch rq = ResponseOk ''https://pay.example/2''"

text \<open>The invoice after a failed payment, and a table state with nothing processed yet.\<close>

definition ex_failed_row :: Invoice where
  "ex_failed_row = ex_row\<lparr>status := FAILED, updatedAt := 2000\<rparr>"

definition stateOf :: "db \<Rightarrow> WebhookState" where
  "stateOf d = \<lparr>invoices = d, processedNotifications = {}\<rparr>"


section \<open>Predicates used in the statements\<close>

text \<open>Every row of the table has an attempt counter between 0 and 3.\<close>

definition withinBudget :: "db \<Rightarrow> bool" where
  "withinBudget d =
     (\<forall>k < length d. 0 \<le> paymentAttemptCount (d ! k) \<and> paymentAttemptCount (d ! k) \<le> 3)"

text \<open>
  The same for a table together with the entities read by pending requests.
\<close>

definition fineBudget :: "db \<times> Invoice list \<Rightarrow> bool" where
  "fineBudget s =
     (withinBudget (fst s) \<and>
      (\<forall>k < length (snd s). 0 \<le> paymentAttemptCount (snd s ! k) \<and>
                              paymentAttemptCount (snd s ! k) \<le> 3))"

text \<open>
  A parsed notification reaches the invoice lookup of \<^verbatim>\<open>midtransRoute\<close>: it passed
  the schema check and the signature check and is not in the set of processed
  notifications.
\<close>

definition reachesLookup ::
  "Platform \<Rightarrow> MidtransEnv \<Rightarrow> WebhookRequest \<Rightarrow> MidtransNotification \<Rightarrow> WebhookState \<Rightarrow> bool" where
  "reachesLookup pf env req n st =
     (req_json req = Inr n \<and> validateWebhookRequest n = None \<and>
      (IS_PRODUCTION env \<longrightarrow> verifySignature pf env n (headerSignature req)) \<and>
      notificationId n \<notin> processedNotifications st)"


section \<open>Lemmas about the repository\<close>

text \<open>Properties of a body that are present or missing.\<close>

lemma printed_simps [simp]: "printed (Some s) = s" "printed None = ''undefined''"
  by (simp_all add: printed_def)

lemma falsy_simps [simp]: "falsy (Some s) \<longleftrightarrow> s = []" "falsy None"
  by (simp_all add: falsy_def)

lemma numberOf_simps [simp]: "numberOf pf (Some s) = Number pf s" "numberOf pf None = None"
  by (simp_all add: numberOf_def)

lemma update_first_length: "length (update_first P f xs) = length xs"
  by (induction xs) simp_all


lemma update_first_none: "\<forall>x \<in> set xs. \<not> P x \<Longrightarrow> update_first P f xs = xs"
  by (induction xs) simp_all


lemma nativeUpdate_length: "length (snd (nativeUpdate c u d)) = length d"
  by (simp add: nativeUpdate_def)

lemma nativeUpdate_nth:
  "k < length d \<Longrightarrow> snd (nativeUpdate c u d) ! k = (if c (d ! k) then u (d ! k) else d ! k)"
  by (simp add: nativeUpdate_def)

lemma nativeUpdate_count: "fst (nativeUpdate c u d) > 0 \<longleftrightarrow> (\<exists>r \<in> set d. c r)"
  by (auto simp add: nativeUpdate_def filter_empty_conv)

lemma nativeUpdate_none: "\<not> (\<exists>r \<in> set d. c r) \<Longrightarrow> snd (nativeUpdate c u d) = d"
  by (simp add: nativeUpdate_def map_idI)

lemma cas_fst:
  "fst (updateStatusAtomicFromPending pf now oid ns pdo d) = SUCCESS \<longleftrightarrow>
   (\<exists>r \<in> set d. orderId r = oid \<and> status r = PENDING \<and> deletedAt r = None)"
proof -
  let ?c = "\<lambda>r. orderId r = oid \<and> status r = PENDING \<and> deletedAt r = None"
  have "fst (updateStatusAtomicFromPending pf now oid ns pdo d) = SUCCESS \<longleftrightarrow>
        fst (nativeUpdate ?c (updateData pf now ns pdo) d) > 0"
    unfolding updateStatusAtomicFromPending_def by (simp add: split_beta)
  then show ?thesis using nativeUpdate_count[of ?c "updateData pf now ns pdo" d] by simp
qed

lemma cas_snd:
  "snd (updateStatusAtomicFromPending pf now oid ns pdo d) =
   snd (nativeUpdate (\<lambda>r. orderId r = oid \<and> status r = PENDING \<and> deletedAt r = None)
                     (updateData pf now ns pdo) d)"
  unfolding updateStatusAtomicFromPending_def by (simp add: split_beta)




section \<open>The atomic conditional update\<close>

text \<open>
  Claim C1, a call that the claim does not describe.  The payment metadata is an
  optional argument (\<^verbatim>\<open>paymentData?: any\<close>), and the metadata columns and
  \<^verbatim>\<open>paidAt\<close> are assigned inside \<^verbatim>\<open>if (paymentData)\<close>.  On a table with one
  pending invoice, the update to \<^verbatim>\<open>PAID\<close> without payment data returns
  \<^verbatim>\<open>SUCCESS\<close> and writes the status and \<^verbatim>\<open>updatedAt\<close> only: the invoice
  is \<^verbatim>\<open>PAID\<close> with no \<^verbatim>\<open>paidAt\<close>, no payment type and no stored gateway
  response.
\<close>

theorem updateStatusAtomicFromPending_without_payment_data:
  "updateStatusAtomicFromPending evalPlatform 2000 ''ORD-1'' PAID None [ex_row]
     = (SUCCESS, [ex_row\<lparr>status := PAID, updatedAt := 2000\<rparr>]) \<and>
   status (ex_row\<lparr>status := PAID, updatedAt := 2000\<rparr>) = PAID \<and>
   paidAt (ex_row\<lparr>status := PAID, updatedAt := 2000\<rparr>) = None \<and>
   paymentType (ex_row\<lparr>status := PAID, updatedAt := 2000\<rparr>) = None \<and>
   gatewayResponse (ex_row\<lparr>status := PAID, updatedAt := 2000\<rparr>) = None"
  by (simp add: updateStatusAtomicFromPending_def nativeUpdate_def updateData_def ex_row_def
      newInvoice_def)

text \<open>
  Claim C1, as the code has it.  For every order id, new status and optional payment
  metadata, \<^verbatim>\<open>updateStatusAtomicFromPending\<close> changes exactly the rows that are not
  soft-deleted, carry the order id and are still \<^verbatim>\<open>PENDING\<close>.  Such a row gets
  the new status and \<^verbatim>\<open>updatedAt\<close>; when payment metadata is passed it also gets
  the payment-metadata columns, and \<^verbatim>\<open>paidAt\<close> when the new status is
  \<^verbatim>\<open>PAID\<close>; when none is passed, the metadata columns and \<^verbatim>\<open>paidAt\<close> keep
  their values, also on a transition into \<^verbatim>\<open>PAID\<close>.  Every other row is left as
  it is.  The result is \<^verbatim>\<open>SUCCESS\<close> exactly when some row matched and
  \<^verbatim>\<open>NOOP\<close> otherwise, and on \<^verbatim>\<open>NOOP\<close> the table is unchanged.
\<close>

theorem updateStatusAtomicFromPending_compare_and_set:
  assumes "updateStatusAtomicFromPending pf now oid newStatus paymentData d = (res, d')"
  shows "length d' = length d \<and>
     (\<forall>k < length d.
        if orderId (d ! k) = oid \<and> status (d ! k) = PENDING \<and> deletedAt (d ! k) = None
        then d' ! k =
          (case paymentData of
             None \<Rightarrow> (d ! k)\<lparr>status := newStatus, updatedAt := now\<rparr>
           | Some pd \<Rightarrow>
               (d ! k)\<lparr>status := newStatus, updatedAt := now,
                 paymentType := payment_type pd, bank := bank_n pd, vaNumber := va_number pd,
                 gatewayResponse := Some (JSON_stringify pf pd),
                 paidAt := (if newStatus = PAID then Some now else paidAt (d ! k))\<rparr>)
        else d' ! k = d ! k) \<and>
     (res = SUCCESS \<longleftrightarrow>
        (\<exists>r \<in> set d. orderId r = oid \<and> status r = PENDING \<and> deletedAt r = None)) \<and>
     (res = NOOP \<longleftrightarrow>
        \<not> (\<exists>r \<in> set d. orderId r = oid \<and> status r = PENDING \<and> deletedAt r = None)) \<and>
     (res = NOOP \<longrightarrow> d' = d)"
proof -
  let ?c = "\<lambda>r. orderId r = oid \<and> status r = PENDING \<and> deletedAt r = None"
  have r: "res = fst (updateStatusAtomicFromPending pf now oid newStatus paymentData d)"
    and d': "d' = snd (updateStatusAtomicFromPending pf now oid newStatus paymentData d)"
    using assms by simp_all
  have len: "length d' = length d"
    by (simp add: d' cas_snd nativeUpdate_length)
  have rows: "\<forall>k < length d.
        if ?c (d ! k)
        then d' ! k =
          (case paymentData of
             None \<Rightarrow> (d ! k)\<lparr>status := newStatus, updatedAt := now\<rparr>
           | Some pd \<Rightarrow>
               (d ! k)\<lparr>status := newStatus, updatedAt := now,
                 paymentType := payment_type pd, bank := bank_n pd, vaNumber := va_number pd,
                 gatewayResponse := Some (JSON_stringify pf pd),
                 paidAt := (if newStatus = PAID then Some now else paidAt (d ! k))\<rparr>)
        else d' ! k = d ! k"
    by (cases paymentData) (simp_all add: d' cas_snd nativeUpdate_nth updateData_def)
  have s: "res = SUCCESS \<longleftrightarrow> (\<exists>r \<in> set d. ?c r)"
    by (simp add: r cas_fst)
  have n: "res = NOOP \<longleftrightarrow> \<not> (\<exists>r \<in> set d. ?c r)"
    using s by (cases res) simp_all
  have u: "res = NOOP \<longrightarrow> d' = d"
    using n by (auto simp add: d' cas_snd intro!: nativeUpdate_none)
  show ?thesis using len rows s n u by blast
qed

text \<open>
  The theorem at a table with one pending invoice: a notification for its order id
  succeeds and writes the row with its metadata, the same update without payment data
  writes the status alone, and one for another order id is a \<^verbatim>\<open>NOOP\<close>.
\<close>

theorem updateStatusAtomicFromPending_compare_and_set_witness:
  "updateStatusAtomicFromPending evalPlatform 2000 ''ORD-1'' PAID (Some ex_note) [ex_row]
     = (SUCCESS, [ex_row\<lparr>status := PAID, updatedAt := 2000, paymentType := Some ''bank_transfer'',
          bank := Some ''bca'', vaNumber := Some ''123'',
          gatewayResponse := Some ''{order_id:ORD-1}'', paidAt := Some 2000\<rparr>]) \<and>
   updateStatusAtomicFromPending evalPlatform 2000 ''ORD-1'' FAILED None [ex_row]
     = (SUCCESS, [ex_row\<lparr>status := FAILED, updatedAt := 2000\<rparr>]) \<and>
   updateStatusAtomicFromPending evalPlatform 2000 ''ORD-2'' PAID (Some ex_note) [ex_row]
     = (NOOP, [ex_row])"
proof -
  have h1: "updateStatusAtomicFromPending evalPlatform 2000 ''ORD-1'' PAID (Some ex_note) [ex_row]
     = (SUCCESS, [ex_row\<lparr>status := PAID, updatedAt := 2000, paymentType := Some ''bank_transfer'',
          bank := Some ''bca'', vaNumber := Some ''123'',
          gatewayResponse := Some ''{order_id:ORD-1}'', paidAt := Some 2000\<rparr>])"
    by (simp add: updateStatusAtomicFromPending_def nativeUpdate_def updateData_def ex_row_def
        ex_note_def newInvoice_def evalPlatform_def)
  have h2: "updateStatusAtomicFromPending evalPlatform 2000 ''ORD-2'' PAID (Some ex_note) [ex_row]
     = (NOOP, [ex_row])"
    by (simp add: updateStatusAtomicFromPending_def nativeUpdate_def updateData_def ex_row_def
        ex_note_def newInvoice_def evalPlatform_def)
  have h3: "updateStatusAtomicFromPending evalPlatform 2000 ''ORD-1'' FAILED None [ex_row]
     = (SUCCESS, [ex_row\<lparr>status := FAILED, updatedAt := 2000\<rparr>])"
    by (simp add: updateStatusAtomicFromPending_def nativeUpdate_def updateData_def ex_row_def
        newInvoice_def)
  show ?thesis
    using h1 h2 h3 updateStatusAtomicFromPending_compare_and_set[OF h1]
      updateStatusAtomicFromPending_compare_and_set[OF h2]
      updateStatusAtomicFromPending_compare_and_set[OF h3] by simp
qed


section \<open>The transition guard\<close>

text \<open>
  Claim C5, as stated, says that \<^verbatim>\<open>isValidStatusTransition(current, next)\<close> is
  false when both arguments are \<^verbatim>\<open>PENDING\<close>.  Both copies of the function return
  true there.
\<close>

theorem isValidStatusTransition_pending_pending:
  "isValidStatusTransition PENDING PENDING \<and> isValidStatusTransition_callback PENDING PENDING"
  by (simp add: isValidStatusTransition_def isValidStatusTransition_callback_def
      finalStatuses_def)

text \<open>
  Claim C5, amended.  \<^verbatim>\<open>isValidStatusTransition(current, next)\<close> returns true if and
  only if \<^verbatim>\<open>current\<close> is \<^verbatim>\<open>PENDING\<close>, whatever \<^verbatim>\<open>next\<close> is: it is false for
  every current status among \<^verbatim>\<open>PAID\<close>, \<^verbatim>\<open>FAILED\<close>, \<^verbatim>\<open>EXPIRED\<close>, and
  true for a pending invoice also when the new status is \<^verbatim>\<open>PENDING\<close>.
\<close>

theorem isValidStatusTransition_iff_current_pending:
  "(isValidStatusTransition current new \<longleftrightarrow> current = PENDING) \<and>
   (isValidStatusTransition_callback current new \<longleftrightarrow> current = PENDING)"
  by (cases current)
     (simp_all add: isValidStatusTransition_def isValidStatusTransition_callback_def
        finalStatuses_def)


section \<open>Lemmas about the notification handlers\<close>

lemma catchResponse_code: "400 \<le> httpCode (catchResponse m)"
  by (simp add: catchResponse_def)

lemma cas_noop_unchanged:
  "fst (updateStatusAtomicFromPending pf now oid ns pdo d) = NOOP \<Longrightarrow>
   updateStatusAtomicFromPending pf now oid ns pdo d = (NOOP, d)"
proof -
  assume a: "fst (updateStatusAtomicFromPending pf now oid ns pdo d) = NOOP"
  then have "\<not> (\<exists>r \<in> set d. orderId r = oid \<and> status r = PENDING \<and> deletedAt r = None)"
    using cas_fst[of pf now oid ns pdo d] by auto
  then have "snd (updateStatusAtomicFromPending pf now oid ns pdo d) = d"
    by (simp add: cas_snd nativeUpdate_none)
  with a show ?thesis by (simp add: prod_eq_iff)
qed

lemma midtransRoute_schema:
  assumes "req_json req = Inr n" and "validateWebhookRequest n = Some e"
  shows "midtransRoute_notification pf env now c req st = (Json (ErrorBody e) 400, st)"
  using assms by (auto simp add: midtransRoute_notification_def)

lemma midtransRoute_signature:
  assumes "req_json req = Inr n" and "validateWebhookRequest n = None"
    and "IS_PRODUCTION env" and "\<not> verifySignature pf env n (headerSignature req)"
  shows "midtransRoute_notification pf env now c req st = (Json (ErrorBody ''Unauthorized'') 401, st)"
  using assms by (auto simp add: midtransRoute_notification_def)

lemma midtransRoute_not_found:
  assumes "req_json req = Inr n" and "validateWebhookRequest n = None"
    and "IS_PRODUCTION env \<longrightarrow> verifySignature pf env n (headerSignature req)"
    and "notificationId n \<notin> processedNotifications st"
    and "findByOrderId (printed (order_id n)) (invoices st) = None"
  shows "midtransRoute_notification pf env now c req st =
           (Json (ErrorBody ''Invoice tidak ditemukan'') 404, st)"
  using assms by (auto simp add: midtransRoute_notification_def)

lemma midtransRoute_rule:
  assumes "req_json req = Inr n" and "validateWebhookRequest n = None"
    and "IS_PRODUCTION env \<longrightarrow> verifySignature pf env n (headerSignature req)"
    and "notificationId n \<notin> processedNotifications st"
    and "findByOrderId (printed (order_id n)) (invoices st) = Some invoice"
    and "validatePaymentRules pf invoice n = Some e"
  shows "midtransRoute_notification pf env now c req st = (Json (RuleErrorBody e) 400, st)"
  using assms by (auto simp add: midtransRoute_notification_def)

lemma midtransRoute_unknown_status:
  assumes "req_json req = Inr n" and "validateWebhookRequest n = None"
    and "IS_PRODUCTION env \<longrightarrow> verifySignature pf env n (headerSignature req)"
    and "notificationId n \<notin> processedNotifications st"
    and "findByOrderId (printed (order_id n)) (invoices st) = Some invoice"
    and "validatePaymentRules pf invoice n = None"
    and "mapMidtransStatusToInvoice (transaction_status n) = None"
  shows "midtransRoute_notification pf env now c req st =
           (catchResponse (''Unknown transaction status: '' @ transaction_status n), st)"
  using assms by (auto simp add: midtransRoute_notification_def)

lemma midtransRoute_invalid_transition:
  assumes "req_json req = Inr n" and "validateWebhookRequest n = None"
    and "IS_PRODUCTION env \<longrightarrow> verifySignature pf env n (headerSignature req)"
    and "notificationId n \<notin> processedNotifications st"
    and "findByOrderId (printed (order_id n)) (invoices st) = Some invoice"
    and "validatePaymentRules pf invoice n = None"
    and "mapMidtransStatusToInvoice (transaction_status n) = Some ns"
    and "\<not> isValidStatusTransition (status invoice) ns \<or> status invoice = ns"
  shows "midtransRoute_notification pf env now c req st =
           (Json (SuccessMessage (if \<not> isValidStatusTransition (status invoice) ns
                                  then ''Status transition not allowed''
                                  else ''Status already set - idempotent'')) 200, st)"
  using assms by (auto simp add: midtransRoute_notification_def)

lemma midtransRoute_noop:
  assumes "req_json req = Inr n" and "validateWebhookRequest n = None"
    and "IS_PRODUCTION env \<longrightarrow> verifySignature pf env n (headerSignature req)"
    and "notificationId n \<notin> processedNotifications st"
    and "findByOrderId (printed (order_id n)) (invoices st) = Some invoice"
    and "validatePaymentRules pf invoice n = None"
    and "mapMidtransStatusToInvoice (transaction_status n) = Some ns"
    and "isValidStatusTransition (status invoice) ns" and "status invoice \<noteq> ns"
    and "fst (updateStatusAtomicFromPending pf now (printed (order_id n)) ns (Some n) (c (invoices st))) = NOOP"
  shows "midtransRoute_notification pf env now c req st =
           (Json (SuccessMessage ''No operation performed'') 200, st\<lparr>invoices := c (invoices st)\<rparr>)"
  using assms cas_noop_unchanged[OF assms(10)]
  by (auto simp add: midtransRoute_notification_def)

lemma callbackRoute_always_received:
  assumes "req_json req = Inr n"
  shows "fst (callbackRoute_notification pf env now c req d) = Json Received 200"
  using assms
  by (simp add: callbackRoute_notification_def split: option.split prod.split CasResult.split)

lemma callbackRoute_no_write:
  assumes "req_json req = Inr n"
    and "\<not> verifySignature_callback pf env n \<or> findByOrderId (printed (order_id n)) d = None \<or>
         mapMidtransStatusToInvoice (transaction_status n) = None \<or>
         (\<exists>invoice ns. findByOrderId (printed (order_id n)) d = Some invoice \<and>
            mapMidtransStatusToInvoice (transaction_status n) = Some ns \<and>
            (\<not> isValidStatusTransition_callback (status invoice) ns \<or> status invoice = ns))"
  shows "snd (callbackRoute_notification pf env now c req d) = d"
  using assms
  by (auto simp add: callbackRoute_notification_def split: option.split prod.split CasResult.split)

lemma callbackRoute_noop:
  assumes "req_json req = Inr n" and "verifySignature_callback pf env n"
    and "findByOrderId (printed (order_id n)) d = Some invoice"
    and "mapMidtransStatusToInvoice (transaction_status n) = Some ns"
    and "isValidStatusTransition_callback (status invoice) ns" and "status invoice \<noteq> ns"
    and "fst (updateStatusAtomicFromPending pf now (printed (order_id n)) ns (Some n) (c d)) = NOOP"
  shows "callbackRoute_notification pf env now c req d = (Json Received 200, c d)"
  using assms cas_noop_unchanged[OF assms(7)]
  by (simp add: callbackRoute_notification_def)

lemma cas_keeps_non_pending:
  "k < length d \<Longrightarrow> status (d ! k) \<noteq> PENDING \<Longrightarrow>
   snd (updateStatusAtomicFromPending pf now oid ns pdo d) ! k = d ! k"
  by (simp add: cas_snd nativeUpdate_nth)

lemma cas_length: "length (snd (updateStatusAtomicFromPending pf now oid ns pdo d)) = length d"
  by (simp add: cas_snd nativeUpdate_length)

lemma midtransRoute_writes:
  "invoices (snd (midtransRoute_notification pf env now c req st)) = invoices st \<or>
   (\<exists>oid ns pd. invoices (snd (midtransRoute_notification pf env now c req st)) =
        snd (updateStatusAtomicFromPending pf now oid ns pd (c (invoices st))))"
  unfolding midtransRoute_notification_def
  by (auto split: sum.split option.split prod.split CasResult.split) (metis snd_conv)+

lemma midtransRoute_old_writes:
  "invoices (snd (midtransRoute_notification_old pf env now c req st)) = invoices st \<or>
   (\<exists>oid ns pd. invoices (snd (midtransRoute_notification_old pf env now c req st)) =
        snd (updateStatusAtomicFromPending pf now oid ns pd (c (invoices st))))"
  unfolding midtransRoute_notification_old_def
  by (auto split: sum.split option.split prod.split CasResult.split) (metis snd_conv)+

lemma callbackRoute_writes:
  "snd (callbackRoute_notification pf env now c req d) = d \<or>
   (\<exists>oid ns pd. snd (callbackRoute_notification pf env now c req d) =
        snd (updateStatusAtomicFromPending pf now oid ns pd (c d)))"
  unfolding callbackRoute_notification_def
  by (auto split: sum.split option.split prod.split CasResult.split) (metis snd_conv)+

lemma webhook_routes_keep_terminal_status:
  assumes "k < length (invoices st)" and "status (invoices st ! k) \<noteq> PENDING"
  shows "invoices (snd (midtransRoute_notification pf env now (\<lambda>d. d) req st)) ! k = invoices st ! k"
    and "invoices (snd (midtransRoute_notification_old pf env now (\<lambda>d. d) req st)) ! k = invoices st ! k"
    and "snd (callbackRoute_notification pf env now (\<lambda>d. d) req (invoices st)) ! k = invoices st ! k"
  using assms midtransRoute_writes[of pf env now "\<lambda>d. d" req st]
    midtransRoute_old_writes[of pf env now "\<lambda>d. d" req st]
    callbackRoute_writes[of pf env now "\<lambda>d. d" req "invoices st"]
  by (auto simp add: cas_keeps_non_pending)

lemma midtransRoute_amount_mismatch:
  assumes "req_json req = Inr n"
    and "findByOrderId (printed (order_id n)) (invoices st) = Some invoice"
    and "numberOf pf (gross_amount n) \<noteq> Some (amount invoice)"
  shows "snd (midtransRoute_notification pf env now c req st) = st"
    and "snd (midtransRoute_notification_old pf env now c req st) = st"
  using assms
  by (auto simp add: midtransRoute_notification_def midtransRoute_notification_old_def
      validatePaymentRules_def Let_def split: option.split)

lemma validatePaymentRules_amount_mismatch:
  "numberOf pf (gross_amount n) \<noteq> Some (amount invoice) \<Longrightarrow>
   validatePaymentRules pf invoice n = Some (AmountMismatch (amount invoice) (numberOf pf (gross_amount n)))"
  by (simp add: validatePaymentRules_def Let_def)

lemma midtransRoute_old_hard_errors:
  assumes "req_json req = Inr n"
    and "validateWebhookRequest n \<noteq> None \<or>
         (IS_PRODUCTION env \<and> \<not> verifySignature pf env n (headerSignature req)) \<or>
         findByOrderId (printed (order_id n)) (invoices st) = None \<or>
         (\<exists>invoice. findByOrderId (printed (order_id n)) (invoices st) = Some invoice \<and>
            (validatePaymentRules pf invoice n \<noteq> None \<or>
             mapMidtransStatusToInvoice (transaction_status n) = None))"
    and "notificationId n \<notin> processedNotifications st"
  shows "midtransRoute_notification_old pf env now c req st =
         midtransRoute_notification pf env now c req st"
  using assms
  by (auto simp add: midtransRoute_notification_def midtransRoute_notification_old_def
      split: option.split)

lemma midtransRoute_old_early:
  assumes "req_json req = Inr n"
    and "validateWebhookRequest n \<noteq> None \<or>
         (IS_PRODUCTION env \<and> \<not> verifySignature pf env n (headerSignature req))"
  shows "midtransRoute_notification_old pf env now c req st =
         midtransRoute_notification pf env now c req st"
  using assms
  by (auto simp add: midtransRoute_notification_def midtransRoute_notification_old_def
      split: option.split)


section \<open>Lemmas about the attempt counter\<close>


lemma update_first_nth_differs:
  "find P xs = Some r \<Longrightarrow> k < length xs \<Longrightarrow> xs ! k \<noteq> r \<Longrightarrow>
   update_first P f xs ! k = xs ! k"
proof (induction xs arbitrary: k)
  case Nil
  then show ?case by simp
next
  case (Cons x xs)
  then show ?case by (cases k) (auto split: if_splits)
qed

text \<open>What each transaction does to the attempt counter of a row.\<close>

lemma flushed_count: "paymentAttemptCount (flushed now r r') = paymentAttemptCount r'"
  by (simp add: flushed_def)

lemma find_Some_P: "find P xs = Some r \<Longrightarrow> P r \<and> r \<in> set xs"
  by (induction xs) (auto split: if_splits)

lemma update_first_const_rel:
  "find P xs = Some r \<Longrightarrow> R r r' \<Longrightarrow> (\<And>x. R x x) \<Longrightarrow> k < length xs \<Longrightarrow>
   R (xs ! k) (update_first P (\<lambda>x. r') xs ! k)"
proof (induction xs arbitrary: k)
  case Nil
  then show ?case by simp
next
  case (Cons x xs)
  then show ?case by (cases k) (auto split: if_splits)
qed

lemma runOp_count:
  assumes k: "k < length d"
  shows "length d \<le> length (runOp pf op d) \<and>
         paymentAttemptCount (d ! k) \<le> paymentAttemptCount (runOp pf op d ! k) \<and>
         (paymentAttemptCount (d ! k) \<le> 3 \<longrightarrow> paymentAttemptCount (runOp pf op d ! k) \<le> 3)"
proof -
  let ?R = "\<lambda>a b. paymentAttemptCount a \<le> paymentAttemptCount b \<and>
                   (paymentAttemptCount a \<le> 3 \<longrightarrow> paymentAttemptCount b \<le> 3)"
  have upd: "?R (d ! k) (update_first P (\<lambda>x. r') d ! k)"
    if "find P d = Some r" and "?R r r'" for P r r'
    using update_first_const_rel[of P d r ?R r' k] that k by simp
  show ?thesis
  proof (cases op)
    case (Create now newId oid amt)
    then show ?thesis using k
      by (simp add: create_def Let_def nth_append split: option.split)
  next
    case (UpdateStatus now i st pd)
    show ?thesis
    proof (cases "find (\<lambda>r. invoiceId r = i \<and> deletedAt r = None) d")
      case None
      then show ?thesis using UpdateStatus by (simp add: updateStatus_def)
    next
      case (Some r)
      have "?R r (flushed now r (applyStatus now st pd r))"
        by (simp add: flushed_count applyStatus_def Let_def split: option.split)
      from upd[OF Some this] show ?thesis
        using UpdateStatus Some by (simp add: updateStatus_def Let_def update_first_length)
    qed
  next
    case (UpdateStatusByOrderId now oid st pd)
    show ?thesis
    proof (cases "find (\<lambda>r. orderId r = oid \<and> deletedAt r = None) d")
      case None
      then show ?thesis using UpdateStatusByOrderId by (simp add: updateStatusByOrderId_def)
    next
      case (Some r)
      have "?R r (flushed now r (applyStatus now st pd r))"
        by (simp add: flushed_count applyStatus_def Let_def split: option.split)
      from upd[OF Some this] show ?thesis
        using UpdateStatusByOrderId Some
        by (simp add: updateStatusByOrderId_def Let_def update_first_length)
    qed
  next
    case (UpdateStatusAtomicFromPending now oid st pd)
    then show ?thesis using k
      by (auto simp add: cas_snd nativeUpdate_length nativeUpdate_nth updateData_def Let_def
          split: option.split)
  next
    case (SoftDelete now i)
    show ?thesis
    proof (cases "find (\<lambda>r. invoiceId r = i \<and> deletedAt r = None) d")
      case None
      then show ?thesis using SoftDelete by (simp add: softDelete_def)
    next
      case (Some r)
      have "?R r (flushed now r (r\<lparr>deletedAt := Some now\<rparr>))"
        by (simp add: flushed_count)
      from upd[OF Some this] show ?thesis
        using SoftDelete Some by (simp add: softDelete_def Let_def update_first_length)
    qed
  next
    case (LinkStep1 now i)
    show ?thesis
    proof (cases "find (\<lambda>r. invoiceId r = i \<and> deletedAt r = None) d")
      case None
      then show ?thesis using LinkStep1
        by (simp add: generatePaymentLink_step1_def findById_def)
    next
      case (Some r)
      show ?thesis
      proof (cases "status r = PAID \<or> status r = EXPIRED \<or> paymentAttemptCount r \<ge> 3 \<or>
                    activeLink now r")
        case True
        then show ?thesis using LinkStep1 Some
          by (auto simp add: generatePaymentLink_step1_def findById_def)
      next
        case False
        then have "?R r (flushed now r
                    (r\<lparr>paymentAttemptCount :=
                          (if paymentAttemptCount r = 0 then 0 else paymentAttemptCount r) + 1,
                        paymentLinkCreatedAt := Some now\<rparr>))"
          by (simp add: flushed_count)
        from upd[OF Some this] show ?thesis
          using LinkStep1 Some False
          by (simp add: generatePaymentLink_step1_def findById_def Let_def update_first_length)
      qed
    qed
  next
    case (LinkStep3 now url i)
    show ?thesis
    proof (cases "find (\<lambda>r. invoiceId r = i \<and> deletedAt r = None) d")
      case None
      then show ?thesis using LinkStep3
        by (simp add: generatePaymentLink_step3_def findById_def)
    next
      case (Some r)
      have "?R r (flushed now r (r\<lparr>paymentLink := Some url\<rparr>))"
        by (simp add: flushed_count)
      from upd[OF Some this] show ?thesis
        using LinkStep3 Some
        by (simp add: generatePaymentLink_step3_def findById_def Let_def update_first_length)
    qed
  next
    case (LinkCatch now i)
    show ?thesis
    proof (cases "find (\<lambda>r. invoiceId r = i \<and> deletedAt r = None) d")
      case None
      then show ?thesis using LinkCatch
        by (simp add: generatePaymentLink_catch_def findById_def)
    next
      case (Some r)
      have "?R r (flushed now r (r\<lparr>paymentLinkCreatedAt := None\<rparr>))"
        by (simp add: flushed_count)
      from upd[OF Some this] show ?thesis
        using LinkCatch Some
        by (simp add: generatePaymentLink_catch_def findById_def Let_def update_first_length)
    qed
  next
    case (HandleCallback now oid ts raw)
    show ?thesis
    proof (cases "find (\<lambda>r. invoiceId r = oid \<and> deletedAt r = None) d")
      case None
      then show ?thesis using HandleCallback
        by (simp add: handleMidtransCallback_def findWithLock_def)
    next
      case (Some r)
      have "?R r (flushed now r (callbackAssign pf now ns raw r))" for ns
        by (simp add: flushed_count callbackAssign_def Let_def)
      from upd[OF Some this] show ?thesis
        using HandleCallback Some
        by (simp add: handleMidtransCallback_def findWithLock_def Let_def update_first_length
            split: option.split)
    qed
  next
    case (HandleCallbackLegacy now oid ts raw)
    show ?thesis
    proof (cases "find (\<lambda>r. orderId r = oid \<and> deletedAt r = None) d")
      case None
      then show ?thesis using HandleCallbackLegacy
        by (simp add: handleMidtransCallback_legacy_def)
    next
      case (Some r)
      have "?R r (flushed now r (callbackAssign pf now ns raw r))" for ns
        by (simp add: flushed_count callbackAssign_def Let_def)
      from upd[OF Some this] show ?thesis
        using HandleCallbackLegacy Some
        by (simp add: handleMidtransCallback_legacy_def Let_def update_first_length
            split: option.split)
    qed
  qed
qed

lemma runOp_new_row:
  "length (runOp pf op d) = length d \<or>
   (\<exists>now newId oid amt. runOp pf op d = d @ [newInvoice now newId oid amt])"
  by (cases op)
     (auto simp add: create_def updateStatus_def updateStatusByOrderId_def softDelete_def
        generatePaymentLink_step1_def generatePaymentLink_step3_def generatePaymentLink_catch_def
        handleMidtransCallback_def handleMidtransCallback_legacy_def cas_length
        update_first_length Let_def split: option.split)

lemma runOp_withinBudget:
  assumes "withinBudget d"
  shows "withinBudget (runOp pf op d)"
  unfolding withinBudget_def
proof (intro allI impI)
  fix k assume k: "k < length (runOp pf op d)"
  show "0 \<le> paymentAttemptCount (runOp pf op d ! k) \<and> paymentAttemptCount (runOp pf op d ! k) \<le> 3"
  proof (cases "k < length d")
    case True
    then show ?thesis using runOp_count[OF True, of pf op] assms
      by (auto simp add: withinBudget_def)
  next
    case False
    then have "length (runOp pf op d) \<noteq> length d" using k by simp
    then obtain now newId oid amt where new: "runOp pf op d = d @ [newInvoice now newId oid amt]"
      using runOp_new_row[of pf op d] by blast
    then have "k = length d" using k False by simp
    then show ?thesis using new by (simp add: newInvoice_def)
  qed
qed

lemma runOps_withinBudget: "withinBudget d \<Longrightarrow> withinBudget (runOps pf ops d)"
  by (induction ops arbitrary: d) (simp_all add: runOp_withinBudget)

lemma runOps_count:
  "k < length d \<Longrightarrow>
   k < length (runOps pf ops d) \<and>
   paymentAttemptCount (d ! k) \<le> paymentAttemptCount (runOps pf ops d ! k)"
proof (induction ops arbitrary: d)
  case Nil
  then show ?case by simp
next
  case (Cons op ops)
  have step: "length d \<le> length (runOp pf op d) \<and>
              paymentAttemptCount (d ! k) \<le> paymentAttemptCount (runOp pf op d ! k)"
    using runOp_count[OF Cons.prems, of pf op] by simp
  then have "k < length (runOp pf op d)" using Cons.prems by simp
  from Cons.IH[OF this] step show ?case by auto
qed

lemma step1_over_budget:
  assumes "findById i d = Some invoice" and "3 \<le> paymentAttemptCount invoice"
  shows "generatePaymentLink_step1 now i d =
           (Inl (if status invoice = PAID then ''INVOICE_ALREADY_PAID''
                 else if status invoice = EXPIRED then ''INVOICE_EXPIRED''
                 else ''MAX_PAYMENT_ATTEMPTS_REACHED''), d)"
  using assms by (simp add: generatePaymentLink_step1_def)

lemma generatePaymentLink_step1_fails:
  "generatePaymentLink_step1 now i d = (Inl e, d1) \<Longrightarrow>
   generatePaymentLink now later fetch during i d = (Inl e, d1)"
  by (simp add: generatePaymentLink_def)

text \<open>
  What a call of the coordinator does to the table, with the transactions of other
  requests in between, is a sequence of storage transactions.
\<close>

lemma runOps_append: "runOps pf (xs @ ys) d = runOps pf ys (runOps pf xs d)"
  by (induction xs arbitrary: d) simp_all

lemma generatePaymentLink_is_transactions:
  "\<exists>ops'. snd (generatePaymentLink now later fetch (runOps pf ops) i d) = runOps pf ops' d"
proof (cases "generatePaymentLink_step1 now i d")
  case (Pair r1 d1)
  then have d1: "d1 = runOps pf [LinkStep1 now i] d" by simp
  show ?thesis
  proof (cases r1)
    case (Inl e)
    then have "snd (generatePaymentLink now later fetch (runOps pf ops) i d) =
               runOps pf [LinkStep1 now i] d"
      using Pair by (simp add: generatePaymentLink_def)
    then show ?thesis by blast
  next
    case (Inr invoice)
    show ?thesis
    proof (cases "callMidtrans fetch invoice")
      case (Inl e)
      then have "snd (generatePaymentLink now later fetch (runOps pf ops) i d) =
                 runOps pf ([LinkStep1 now i] @ ops @ [LinkCatch later i]) d"
        using Pair Inr by (simp add: generatePaymentLink_def runOps_append)
      then show ?thesis by blast
    next
      case url: (Inr payment_url)
      show ?thesis
      proof (cases "generatePaymentLink_step3 later payment_url i (runOps pf ops d1)")
        case p3: (Pair r3 d3)
        then have d3: "d3 = runOps pf ([LinkStep1 now i] @ ops @ [LinkStep3 later payment_url i]) d"
          using Pair by (simp add: runOps_append)
        show ?thesis
        proof (cases r3)
          case (Inl e)
          then have "generatePaymentLink now later fetch (runOps pf ops) i d =
                     (Inl e, generatePaymentLink_catch later i d3)"
            using Pair Inr url p3 by (simp add: generatePaymentLink_def)
          then have "snd (generatePaymentLink now later fetch (runOps pf ops) i d) =
                     runOps pf (([LinkStep1 now i] @ ops @ [LinkStep3 later payment_url i]) @
                                [LinkCatch later i]) d"
            unfolding d3 by (simp only: runOps_append runOps.simps runOp.simps snd_conv)
          then show ?thesis by blast
        next
          case r: (Inr updatedInvoice)
          then have "generatePaymentLink now later fetch (runOps pf ops) i d =
                     (Inr updatedInvoice, d3)"
            using Pair Inr url p3 by (simp add: generatePaymentLink_def)
          then have "snd (generatePaymentLink now later fetch (runOps pf ops) i d) =
                     runOps pf ([LinkStep1 now i] @ ops @ [LinkStep3 later payment_url i]) d"
            unfolding d3 by simp
          then show ?thesis by blast
        qed
      qed
    qed
  qed
qed


text \<open>The equations that evaluate a call of the coordinator on a concrete table.\<close>

lemmas link_eval = generatePaymentLink_def generatePaymentLink_step1_def
  generatePaymentLink_step3_def generatePaymentLink_catch_def callMidtrans_def gatewayRequest_def
  findById_def activeLink_def linkAge_def maxAge_def flushed_def Let_def failingFetch_def
  ex_row_def newInvoice_def

text \<open>
  On a table whose primary key is unique, a read of Step 1 followed at once by its flush
  writes what the transaction \<^verbatim>\<open>generatePaymentLink_step1\<close> writes.
\<close>

lemma step1_flush_alone:
  assumes "distinct (map invoiceId d)"
    and "find (\<lambda>r. invoiceId r = i \<and> deletedAt r = None) d = Some invoice"
  shows "generatePaymentLink_step1_flush now invoice d =
         update_first (\<lambda>r. invoiceId r = i \<and> deletedAt r = None)
           (\<lambda>r. invoice\<lparr>paymentAttemptCount :=
                        (if paymentAttemptCount invoice = 0 then 0
                         else paymentAttemptCount invoice) + 1,
                      paymentLinkCreatedAt := Some now, updatedAt := now\<rparr>) d"
  using assms
proof (induction d)
  case Nil
  then show ?case by simp
next
  case (Cons x xs)
  show ?case
  proof (cases "invoiceId x = i \<and> deletedAt x = None")
    case True
    then have x: "x = invoice" using Cons.prems(2) by simp
    have "\<forall>r \<in> set xs. invoiceId r \<noteq> invoiceId invoice"
      using Cons.prems(1) x by (auto simp add: image_iff)
    then have "map (\<lambda>r. if invoiceId r = invoiceId invoice
              then r\<lparr>paymentAttemptCount :=
                        (if paymentAttemptCount invoice = 0 then 0
                         else paymentAttemptCount invoice) + 1,
                      paymentLinkCreatedAt := Some now, updatedAt := now\<rparr>
              else r) xs = xs"
      by (induction xs) simp_all
    then show ?thesis using True x by (simp add: generatePaymentLink_step1_flush_def)
  next
    case False
    then have f: "find (\<lambda>r. invoiceId r = i \<and> deletedAt r = None) xs = Some invoice"
      using Cons.prems(2) by (auto split: if_splits)
    then have "invoiceId invoice = i \<and> invoice \<in> set xs" using find_Some_P[OF f] by simp
    then have "invoiceId x \<noteq> invoiceId invoice" using Cons.prems(1) by force
    moreover have "generatePaymentLink_step1_flush now invoice xs =
         update_first (\<lambda>r. invoiceId r = i \<and> deletedAt r = None)
           (\<lambda>r. invoice\<lparr>paymentAttemptCount :=
                        (if paymentAttemptCount invoice = 0 then 0
                         else paymentAttemptCount invoice) + 1,
                      paymentLinkCreatedAt := Some now, updatedAt := now\<rparr>) xs"
      using Cons.IH Cons.prems(1) f by simp
    ultimately show ?thesis using False by (auto simp add: generatePaymentLink_step1_flush_def)
  qed
qed

lemma step1_read_then_flush:
  assumes "distinct (map invoiceId d)"
  shows "fst (runFines pf [Step1Read i, Step1Flush now 0] (d, [])) =
         snd (generatePaymentLink_step1 now i d)"
proof (cases "find (\<lambda>r. invoiceId r = i \<and> deletedAt r = None) d")
  case None
  then show ?thesis by (simp add: findById_def generatePaymentLink_step1_def)
next
  case (Some invoice)
  have ne: "invoice\<lparr>paymentAttemptCount :=
                        (if paymentAttemptCount invoice = 0 then 0
                         else paymentAttemptCount invoice) + 1,
                      paymentLinkCreatedAt := Some now\<rparr> \<noteq> invoice"
  proof
    assume "invoice\<lparr>paymentAttemptCount :=
                        (if paymentAttemptCount invoice = 0 then 0
                         else paymentAttemptCount invoice) + 1,
                      paymentLinkCreatedAt := Some now\<rparr> = invoice"
    then have "paymentAttemptCount (invoice\<lparr>paymentAttemptCount :=
                        (if paymentAttemptCount invoice = 0 then 0
                         else paymentAttemptCount invoice) + 1,
                      paymentLinkCreatedAt := Some now\<rparr>) = paymentAttemptCount invoice"
      by simp
    then show False by (simp split: if_splits)
  qed
  show ?thesis
    using Some ne step1_flush_alone[OF assms Some, of now]
    by (simp add: findById_def generatePaymentLink_step1_def generatePaymentLink_step1_guard_def
        flushed_def Let_def)
qed

lemma runFines_transactions:
  "runFines pf (map Transaction ops) (d, reads) = (runOps pf ops d, reads)"
  by (induction ops arbitrary: d) simp_all

text \<open>
  The budget also holds at the finer granularity: a flush writes a counter that was
  read from the table and was below 3.
\<close>

lemma runFine_fineBudget:
  assumes "fineBudget s"
  shows "fineBudget (runFine pf op s)"
proof (cases s)
  case (Pair d reads)
  show ?thesis
  proof (cases op)
    case (Transaction t)
    then show ?thesis using assms Pair by (simp add: fineBudget_def runOp_withinBudget)
  next
    case (Step1Read i)
    show ?thesis
    proof (cases "findById i d")
      case None
      then show ?thesis using assms Pair Step1Read by simp
    next
      case (Some invoice)
      then have "invoice \<in> set d" using find_Some_P[of _ d invoice] by (simp add: findById_def)
      then obtain j where "j < length d" and "d ! j = invoice" by (auto simp add: in_set_conv_nth)
      then have "0 \<le> paymentAttemptCount invoice \<and> paymentAttemptCount invoice \<le> 3"
        using assms Pair by (auto simp add: fineBudget_def withinBudget_def)
      then show ?thesis using assms Pair Step1Read Some
        by (auto simp add: fineBudget_def nth_append)
    qed
  next
    case (Step1Flush now k)
    show ?thesis
    proof (cases "k < length reads \<and> generatePaymentLink_step1_guard now (reads ! k) = None")
      case False
      then show ?thesis using assms Pair Step1Flush by auto
    next
      case True
      then have lo: "0 \<le> paymentAttemptCount (reads ! k)"
        using assms Pair by (simp add: fineBudget_def)
      have hi: "paymentAttemptCount (reads ! k) < 3"
        using True by (simp add: generatePaymentLink_step1_guard_def split: if_splits)
      have "withinBudget (generatePaymentLink_step1_flush now (reads ! k) d)"
        using assms Pair lo hi
        by (auto simp add: fineBudget_def withinBudget_def generatePaymentLink_step1_flush_def)
      then show ?thesis using assms Pair Step1Flush True by (simp add: fineBudget_def)
    qed
  qed
qed

lemma runFines_fineBudget: "fineBudget s \<Longrightarrow> fineBudget (runFines pf ops s)"
  by (induction ops arbitrary: s) (simp_all add: runFine_fineBudget)

text \<open>
  Without the lock a flush can lower the counter.  A request reads the invoice at
  counter 0; two other requests each run Step 1 and bring the counter to 2; the first
  request then flushes the counter it read plus one, and the row has counter 1.
\<close>

lemma stale_step1_flush_lowers_counter:
  "map paymentAttemptCount
     (fst (runFines evalPlatform
        [Step1Read ''id-1'', Transaction (LinkStep1 2000 ''id-1''),
         Transaction (LinkStep1 2001 ''id-1'')] ([ex_row], []))) = [2] \<and>
   map paymentAttemptCount
     (fst (runFines evalPlatform
        [Step1Read ''id-1'', Transaction (LinkStep1 2000 ''id-1''),
         Transaction (LinkStep1 2001 ''id-1''), Step1Flush 2002 0] ([ex_row], []))) = [1]"
  by (simp add: link_eval generatePaymentLink_step1_guard_def generatePaymentLink_step1_flush_def)


section \<open>Lemmas about the payment-link coordinator\<close>

lemma step1_success:
  assumes found: "findById i d = Some invoice"
    and "status invoice \<noteq> PAID" and "status invoice \<noteq> EXPIRED"
    and "paymentAttemptCount invoice < 3" and "\<not> activeLink now invoice"
  shows "generatePaymentLink_step1 now i d =
     (Inr (invoice\<lparr>paymentAttemptCount := paymentAttemptCount invoice + 1,
                    paymentLinkCreatedAt := Some now, updatedAt := now\<rparr>),
      update_first (\<lambda>r. invoiceId r = i \<and> deletedAt r = None)
        (\<lambda>r. invoice\<lparr>paymentAttemptCount := paymentAttemptCount invoice + 1,
                       paymentLinkCreatedAt := Some now, updatedAt := now\<rparr>) d)"
proof -
  have ne: "invoice\<lparr>paymentAttemptCount := paymentAttemptCount invoice + 1,
                    paymentLinkCreatedAt := Some now\<rparr> \<noteq> invoice"
  proof
    assume "invoice\<lparr>paymentAttemptCount := paymentAttemptCount invoice + 1,
                    paymentLinkCreatedAt := Some now\<rparr> = invoice"
    then have "paymentAttemptCount (invoice\<lparr>paymentAttemptCount := paymentAttemptCount invoice + 1,
                    paymentLinkCreatedAt := Some now\<rparr>) = paymentAttemptCount invoice"
      by simp
    then show False by simp
  qed
  show ?thesis using assms ne
    by (simp add: generatePaymentLink_step1_def flushed_def Let_def)
qed





lemma activeLink_iff:
  "activeLink now invoice \<longleftrightarrow>
     (\<exists>link created. paymentLink invoice = Some link \<and> link \<noteq> [] \<and>
        paymentLinkCreatedAt invoice = Some created \<and> now - created < 30 * 60 * 1000)"
  by (auto simp add: activeLink_def linkAge_def maxAge_def split: option.split)

lemma step1_active_link:
  assumes "findById i d = Some invoice" and "activeLink now invoice"
  shows "generatePaymentLink_step1 now i d =
           (Inl (if status invoice = PAID then ''INVOICE_ALREADY_PAID''
                 else if status invoice = EXPIRED then ''INVOICE_EXPIRED''
                 else if 3 \<le> paymentAttemptCount invoice then ''MAX_PAYMENT_ATTEMPTS_REACHED''
                 else ''ACTIVE_PAYMENT_LINK_EXISTS''), d)"
  using assms by (simp add: generatePaymentLink_step1_def)

lemma paymentLinksRoute_active_link:
  assumes "order_id_in \<noteq> []" and "(''payment_link_'' @ order_id_in) \<notin> locks"
    and "findByOrderId order_id_in d = Some payment"
    and "status payment \<noteq> PAID" and "status payment \<noteq> EXPIRED"
    and "paymentAttemptCount payment < 3"
    and "linkAge now payment = Some age" and "age < maxAge"
  shows "paymentLinksRoute now later fetch during locks order_id_in d =
           (Json (PaymentUrl (paymentLink payment) (orderId payment)
                    (- ((- (maxAge - age)) div 1000))) 200, d)"
  using assms by (simp add: paymentLinksRoute_def Let_def)

lemma paymentLinksRoute_active_no_write:
  assumes "findByOrderId order_id_in d = Some payment" and "activeLink now payment"
  shows "snd (paymentLinksRoute now later fetch during locks order_id_in d) = d"
  using assms
  by (auto simp add: paymentLinksRoute_def Let_def activeLink_def split: option.splits)

lemma paymentLinksRoute_stale_link:
  assumes "order_id_in \<noteq> []" and "(''payment_link_'' @ order_id_in) \<notin> locks"
    and "findByOrderId order_id_in d = Some payment"
    and "status payment \<noteq> PAID" and "status payment \<noteq> EXPIRED"
    and "paymentAttemptCount payment < 3"
    and "\<not> activeLink now payment"
  shows "paymentLinksRoute now later fetch during locks order_id_in d =
     (case generatePaymentLink now later fetch during (invoiceId payment) d of
        (Inr updatedPayment, d') \<Rightarrow>
          (Json (PaymentLinkCreated (paymentLink updatedPayment) (orderId updatedPayment)
                   (''PL-'' @ invoiceId updatedPayment) (30 * 60)) 200, d')
      | (Inl message, d') \<Rightarrow> (Json (ErrorBody ''Internal server error'') 500, d'))"
  using assms
  by (auto simp add: paymentLinksRoute_def Let_def activeLink_def split: option.splits)


section \<open>Failure semantics of the notification handlers\<close>

text \<open>
  Claim C3, as stated, says that a signature mismatch is surfaced to the caller as a hard
  error.  \<^verbatim>\<open>callbackRoute\<close> answers a notification whose signature does not verify
  with \<^verbatim>\<open>{ received: true }\<close> and code 200.
\<close>

theorem callbackRoute_acknowledges_bad_signature:
  "\<not> verifySignature_callback evalPlatform productionEnv ex_note \<and>
   callbackRoute_notification evalPlatform productionEnv 2000 (\<lambda>d. d) (webhook ex_note) [ex_row] =
     (Json Received 200, [ex_row])"
  by (simp add: callbackRoute_notification_def webhook_def verifySignature_callback_def ex_note_def)

text \<open>
  Claim C3, amended.  In \<^verbatim>\<open>midtransRoute\<close> (both versions) a malformed
  notification, a signature mismatch in production, an unknown invoice, a business-rule
  violation and an unknown vendor status are answered with an error response (400, 401,
  404, 400, and the response of the \<^verbatim>\<open>catch\<close> block, whose code is at least 400) and
  the state is unchanged.  In \<^verbatim>\<open>midtransRoute\<close> of routes/midtrans.route.ts an
  invalid transition (a status equal to the current one included) and a
  \<^verbatim>\<open>NOOP\<close> of the conditional update are answered with code 200 and a success
  body, and the handler writes nothing.  \<^verbatim>\<open>callbackRoute\<close> answers every body that
  parses with \<^verbatim>\<open>{ received: true }\<close> and code 200, whether the signature fails, the
  invoice or the vendor status is unknown, the transition is invalid or the update is a
  \<^verbatim>\<open>NOOP\<close>, and in these cases it writes nothing.
\<close>

theorem notification_failure_semantics:
  "(req_json req = Inr n \<and> validateWebhookRequest n = Some e \<longrightarrow>
      midtransRoute_notification pf env now c req st = (Json (ErrorBody e) 400, st) \<and>
      midtransRoute_notification_old pf env now c req st = (Json (ErrorBody e) 400, st)) \<and>
   (req_json req = Inr n \<and> validateWebhookRequest n = None \<and> IS_PRODUCTION env \<and>
    \<not> verifySignature pf env n (headerSignature req) \<longrightarrow>
      midtransRoute_notification pf env now c req st = (Json (ErrorBody ''Unauthorized'') 401, st) \<and>
      midtransRoute_notification_old pf env now c req st =
        (Json (ErrorBody ''Unauthorized'') 401, st)) \<and>
   (reachesLookup pf env req n st \<and> findByOrderId (printed (order_id n)) (invoices st) = None \<longrightarrow>
      midtransRoute_notification pf env now c req st =
        (Json (ErrorBody ''Invoice tidak ditemukan'') 404, st) \<and>
      midtransRoute_notification_old pf env now c req st =
        (Json (ErrorBody ''Invoice tidak ditemukan'') 404, st)) \<and>
   (reachesLookup pf env req n st \<and> findByOrderId (printed (order_id n)) (invoices st) = Some invoice \<and>
    validatePaymentRules pf invoice n = Some rule \<longrightarrow>
      midtransRoute_notification pf env now c req st = (Json (RuleErrorBody rule) 400, st) \<and>
      midtransRoute_notification_old pf env now c req st = (Json (RuleErrorBody rule) 400, st)) \<and>
   (reachesLookup pf env req n st \<and> findByOrderId (printed (order_id n)) (invoices st) = Some invoice \<and>
    validatePaymentRules pf invoice n = None \<and>
    mapMidtransStatusToInvoice (transaction_status n) = None \<longrightarrow>
      midtransRoute_notification pf env now c req st =
        (catchResponse (''Unknown transaction status: '' @ transaction_status n), st) \<and>
      midtransRoute_notification_old pf env now c req st =
        (catchResponse (''Unknown transaction status: '' @ transaction_status n), st) \<and>
      400 \<le> httpCode (catchResponse (''Unknown transaction status: '' @ transaction_status n))) \<and>
   (reachesLookup pf env req n st \<and> findByOrderId (printed (order_id n)) (invoices st) = Some invoice \<and>
    validatePaymentRules pf invoice n = None \<and>
    mapMidtransStatusToInvoice (transaction_status n) = Some ns \<and>
    (\<not> isValidStatusTransition (status invoice) ns \<or> status invoice = ns) \<longrightarrow>
      httpCode (fst (midtransRoute_notification pf env now c req st)) = 200 \<and>
      (\<exists>m. responseBody (fst (midtransRoute_notification pf env now c req st)) = SuccessMessage m) \<and>
      snd (midtransRoute_notification pf env now c req st) = st) \<and>
   (reachesLookup pf env req n st \<and> findByOrderId (printed (order_id n)) (invoices st) = Some invoice \<and>
    validatePaymentRules pf invoice n = None \<and>
    mapMidtransStatusToInvoice (transaction_status n) = Some ns \<and>
    isValidStatusTransition (status invoice) ns \<and> status invoice \<noteq> ns \<and>
    fst (updateStatusAtomicFromPending pf now (printed (order_id n)) ns (Some n) (c (invoices st))) = NOOP \<longrightarrow>
      midtransRoute_notification pf env now c req st =
        (Json (SuccessMessage ''No operation performed'') 200, st\<lparr>invoices := c (invoices st)\<rparr>)) \<and>
   (req_json req = Inr n \<longrightarrow>
      fst (callbackRoute_notification pf env now c req d) = Json Received 200) \<and>
   (req_json req = Inr n \<and>
    (\<not> verifySignature_callback pf env n \<or> findByOrderId (printed (order_id n)) d = None \<or>
     mapMidtransStatusToInvoice (transaction_status n) = None) \<longrightarrow>
      snd (callbackRoute_notification pf env now c req d) = d) \<and>
   (req_json req = Inr n \<and> findByOrderId (printed (order_id n)) d = Some invoice \<and>
    mapMidtransStatusToInvoice (transaction_status n) = Some ns \<and>
    (\<not> isValidStatusTransition_callback (status invoice) ns \<or> status invoice = ns) \<longrightarrow>
      snd (callbackRoute_notification pf env now c req d) = d) \<and>
   (req_json req = Inr n \<and> verifySignature_callback pf env n \<and>
    findByOrderId (printed (order_id n)) d = Some invoice \<and>
    mapMidtransStatusToInvoice (transaction_status n) = Some ns \<and>
    isValidStatusTransition_callback (status invoice) ns \<and> status invoice \<noteq> ns \<and>
    fst (updateStatusAtomicFromPending pf now (printed (order_id n)) ns (Some n) (c d)) = NOOP \<longrightarrow>
      callbackRoute_notification pf env now c req d = (Json Received 200, c d))"
  (is "?S1 \<and> ?S2 \<and> ?S4 \<and> ?S5 \<and> ?S6 \<and> ?S7 \<and> ?S8 \<and> ?C1 \<and> ?C2 \<and> ?C3 \<and> ?C4")
proof -
  have s1: ?S1
    using midtransRoute_schema midtransRoute_old_early by (metis option.discI)
  have s2: ?S2
    using midtransRoute_signature midtransRoute_old_early by metis
  have s4: ?S4
    unfolding reachesLookup_def
    using midtransRoute_not_found midtransRoute_old_hard_errors by metis
  have s5: ?S5
    unfolding reachesLookup_def
    using midtransRoute_rule midtransRoute_old_hard_errors by (metis option.discI)
  have s6: ?S6
    unfolding reachesLookup_def
    using midtransRoute_unknown_status midtransRoute_old_hard_errors catchResponse_code by metis
  have s7: ?S7
    unfolding reachesLookup_def
    using midtransRoute_invalid_transition[where req = req and n = n and pf = pf and env = env
        and st = st and invoice = invoice and ns = ns and now = now and c = c]
    by auto
  have s8: ?S8
    unfolding reachesLookup_def
    using midtransRoute_noop by blast
  have c1: ?C1
    using callbackRoute_always_received by blast
  have c2: ?C2
    using callbackRoute_no_write by blast
  have c3: ?C3
    using callbackRoute_no_write by blast
  have c4: ?C4
    using callbackRoute_noop by blast
  show ?thesis
    using s1 s2 s4 s5 s6 s7 s8 c1 c2 c3 c4 by (intro conjI)
qed

text \<open>
  The theorem at an unsigned notification in production (401 from
  \<^verbatim>\<open>midtransRoute\<close>, 200 from \<^verbatim>\<open>callbackRoute\<close>) and at a settlement for an
  invoice that is \<^verbatim>\<open>FAILED\<close> (200, nothing written).
\<close>

theorem notification_failure_semantics_witness:
  "midtransRoute_notification evalPlatform productionEnv 2000 (\<lambda>d. d) (webhook ex_note)
       (stateOf [ex_row]) =
     (Json (ErrorBody ''Unauthorized'') 401, stateOf [ex_row]) \<and>
   httpCode (fst (midtransRoute_notification evalPlatform sandboxEnv 2000 (\<lambda>d. d) (webhook ex_note)
       (stateOf [ex_failed_row]))) = 200 \<and>
   snd (midtransRoute_notification evalPlatform sandboxEnv 2000 (\<lambda>d. d) (webhook ex_note)
       (stateOf [ex_failed_row])) = stateOf [ex_failed_row] \<and>
   fst (callbackRoute_notification evalPlatform productionEnv 2000 (\<lambda>d. d) (webhook ex_note)
       [ex_row]) = Json Received 200"
proof -
  have body: "req_json (webhook ex_note) = Inr ex_note"
    by (simp add: webhook_def)
  have schema: "validateWebhookRequest ex_note = None"
    by (simp add: validateWebhookRequest_def ex_note_def)
  have prod: "IS_PRODUCTION productionEnv" and sand: "\<not> IS_PRODUCTION sandboxEnv"
    by (simp_all add: productionEnv_def sandboxEnv_def)
  have unsigned: "\<not> verifySignature evalPlatform productionEnv ex_note (headerSignature (webhook ex_note))"
    by (simp add: verifySignature_def headerSignature_def webhook_def productionEnv_def
        evalPlatform_def ex_note_def)
  have reach: "reachesLookup evalPlatform sandboxEnv (webhook ex_note) ex_note (stateOf [ex_failed_row])"
    using body schema sand by (simp add: reachesLookup_def stateOf_def)
  have found: "findByOrderId (printed (order_id ex_note)) (invoices (stateOf [ex_failed_row])) = Some ex_failed_row"
    by (simp add: findByOrderId_def stateOf_def ex_note_def ex_failed_row_def ex_row_def
        newInvoice_def)
  have rules: "validatePaymentRules evalPlatform ex_failed_row ex_note = None"
    by (simp add: validatePaymentRules_def Let_def evalPlatform_def decimalNumber_def
        ex_note_def ex_failed_row_def ex_row_def newInvoice_def)
  have mapped: "mapMidtransStatusToInvoice (transaction_status ex_note) = Some PAID"
    by (simp add: mapMidtransStatusToInvoice_def ex_note_def)
  have invalid: "\<not> isValidStatusTransition (status ex_failed_row) PAID"
    by (simp add: isValidStatusTransition_def finalStatuses_def ex_failed_row_def)
  have a: "midtransRoute_notification evalPlatform productionEnv 2000 (\<lambda>d. d) (webhook ex_note)
       (stateOf [ex_row]) =
     (Json (ErrorBody ''Unauthorized'') 401, stateOf [ex_row])"
    using notification_failure_semantics[where req = "webhook ex_note" and n = ex_note and pf = evalPlatform
        and env = productionEnv and st = "stateOf [ex_row]" and now = 2000 and c = "\<lambda>d. d"]
      body schema prod unsigned by blast
  have b: "httpCode (fst (midtransRoute_notification evalPlatform sandboxEnv 2000 (\<lambda>d. d)
       (webhook ex_note) (stateOf [ex_failed_row]))) = 200 \<and>
     snd (midtransRoute_notification evalPlatform sandboxEnv 2000 (\<lambda>d. d) (webhook ex_note)
       (stateOf [ex_failed_row])) = stateOf [ex_failed_row]"
    using notification_failure_semantics[where req = "webhook ex_note" and n = ex_note and pf = evalPlatform
        and env = sandboxEnv and st = "stateOf [ex_failed_row]" and now = 2000 and c = "\<lambda>d. d"
        and invoice = ex_failed_row and ns = PAID]
      reach found rules mapped invalid by blast
  have c: "fst (callbackRoute_notification evalPlatform productionEnv 2000 (\<lambda>d. d) (webhook ex_note)
       [ex_row]) = Json Received 200"
    using notification_failure_semantics[where req = "webhook ex_note" and n = ex_note and pf = evalPlatform
        and env = productionEnv and d = "[ex_row]" and now = 2000 and c = "\<lambda>d. d"]
      body by blast
  show ?thesis using a b c by blast
qed


section \<open>Monotonicity of the status\<close>

text \<open>
  Claim C2 says that no notification changes a status that is \<^verbatim>\<open>PAID\<close>,
  \<^verbatim>\<open>FAILED\<close> or \<^verbatim>\<open>EXPIRED\<close>.  The conditional update and the three handlers
  built on it keep such a row as it is (\<open>cas_keeps_non_pending\<close>,
  \<open>webhook_routes_keep_terminal_status\<close>).  \<^verbatim>\<open>handleMidtransCallback\<close> does not:
  it compares the stored status with the new one only for equality.  A paid invoice
  becomes \<^verbatim>\<open>EXPIRED\<close> on an \<^verbatim>\<open>expire\<close> notification (legacy service, lookup by
  order id) and \<^verbatim>\<open>FAILED\<close> on a \<^verbatim>\<open>deny\<close> notification (repository-based
  service, whose lookup is by primary key).
\<close>

theorem handleMidtransCallback_overwrites_paid:
  "status ex_paid_row = PAID \<and>
   handleMidtransCallback_legacy evalPlatform 3000 ''ORD-1'' ''expire'' ex_note [ex_paid_row] =
     (Inr (ex_paid_row\<lparr>status := EXPIRED, gatewayResponse := Some ''{order_id:ORD-1}'',
                       updatedAt := 3000\<rparr>),
      [ex_paid_row\<lparr>status := EXPIRED, gatewayResponse := Some ''{order_id:ORD-1}'',
                    updatedAt := 3000\<rparr>]) \<and>
   handleMidtransCallback evalPlatform 3000 ''id-1'' ''deny'' ex_note [ex_paid_row] =
     (Inr (ex_paid_row\<lparr>status := FAILED, gatewayResponse := Some ''{order_id:ORD-1}'',
                       updatedAt := 3000\<rparr>),
      [ex_paid_row\<lparr>status := FAILED, gatewayResponse := Some ''{order_id:ORD-1}'',
                    updatedAt := 3000\<rparr>])"
  by (simp add: Let_def handleMidtransCallback_legacy_def handleMidtransCallback_def findWithLock_def
      mapMidtransStatusToInvoice_def callbackAssign_def flushed_def ex_paid_row_def ex_row_def
      newInvoice_def ex_note_def evalPlatform_def)


section \<open>The exact-amount rule\<close>

text \<open>
  Claim C4 says that a notification whose amount differs from the invoice's never changes
  the status.  \<^verbatim>\<open>validatePaymentRules\<close> returns the mismatch error for every status
  (\<open>validatePaymentRules_amount_mismatch\<close>) and both versions of
  \<^verbatim>\<open>midtransRoute\<close> then leave the state unchanged
  (\<open>midtransRoute_amount_mismatch\<close>).  \<^verbatim>\<open>callbackRoute\<close> does not call the
  validator: a correctly signed settlement over 90000 marks the pending invoice of 100000
  as \<^verbatim>\<open>PAID\<close>.
\<close>

theorem callbackRoute_accepts_amount_mismatch:
  "numberOf evalPlatform (gross_amount ex_underpaid) = Some 90000 \<and> amount ex_row = 100000 \<and>
   status ex_row = PENDING \<and>
   callbackRoute_notification evalPlatform productionEnv 2000 (\<lambda>d. d) (webhook ex_underpaid) [ex_row]
     = (Json Received 200,
        [ex_row\<lparr>status := PAID, updatedAt := 2000, paymentType := Some ''bank_transfer'',
           bank := Some ''bca'', vaNumber := Some ''123'',
           gatewayResponse := Some ''{order_id:ORD-1}'', paidAt := Some 2000\<rparr>])"
  by (simp add: callbackRoute_notification_def webhook_def verifySignature_callback_def
      ex_underpaid_def ex_note_def evalPlatform_def productionEnv_def findByOrderId_def
      ex_row_def newInvoice_def mapMidtransStatusToInvoice_def isValidStatusTransition_callback_def
      finalStatuses_def updateStatusAtomicFromPending_def nativeUpdate_def updateData_def
      decimalNumber_def)


section \<open>Signature verification\<close>

text \<open>
  Claim C8, as stated, says that \<^verbatim>\<open>verifySignature\<close> returns true whenever
  enforcement is off, and otherwise whenever the digest of the concatenation equals the
  presented signature.  The \<^verbatim>\<open>verifySignature\<close> beside \<^verbatim>\<open>callbackRoute\<close>
  does not read the production flag and refuses a body with an empty field: outside
  production, and with a signature that equals the digest, it returns false for a
  notification whose status code is the empty string.
\<close>

theorem verifySignature_callback_refuses_in_sandbox:
  "\<not> IS_PRODUCTION sandboxEnv \<and>
   order_id ex_no_status_code = Some ''ORD-1'' \<and> status_code ex_no_status_code = Some [] \<and>
   gross_amount ex_no_status_code = Some ''100000'' \<and>
   sha512_hex evalPlatform (''ORD-1'' @ [] @ ''100000'' @ SERVER_KEY sandboxEnv)
     = signature_key ex_no_status_code \<and>
   \<not> verifySignature_callback evalPlatform sandboxEnv ex_no_status_code"
  by (simp add: verifySignature_callback_def falsy_def sandboxEnv_def ex_no_status_code_def
      ex_note_def evalPlatform_def)

text \<open>
  Claim C8, amended.  \<^verbatim>\<open>verifySignature\<close> of midtrans.service (and its copy in the
  older route module) returns true whenever \<^verbatim>\<open>IS_PRODUCTION\<close> is off; in production
  it returns true if and only if the hex SHA-512 digest of
  \<^verbatim>\<open>order_id || status_code || gross_amount || SERVER_KEY\<close> equals the presented
  signature, where a property that the body lacks enters the concatenation as the text
  \<^verbatim>\<open>undefined\<close>.  The \<^verbatim>\<open>verifySignature\<close> beside \<^verbatim>\<open>callbackRoute\<close> enforces
  always: it returns true if and only if \<^verbatim>\<open>order_id\<close>, \<^verbatim>\<open>status_code\<close>,
  \<^verbatim>\<open>gross_amount\<close> and \<^verbatim>\<open>signature_key\<close> are all present and non-empty and
  the digest of the concatenation equals \<^verbatim>\<open>signature_key\<close>.
\<close>

theorem verifySignature_enforcement:
  "(\<not> IS_PRODUCTION env \<longrightarrow> verifySignature pf env n sig) \<and>
   (IS_PRODUCTION env \<and> order_id n = Some a \<and> status_code n = Some b \<and> gross_amount n = Some c \<longrightarrow>
      (verifySignature pf env n sig \<longleftrightarrow> sha512_hex pf (a @ b @ c @ SERVER_KEY env) = sig)) \<and>
   (IS_PRODUCTION env \<longrightarrow>
      (verifySignature pf env n sig \<longleftrightarrow>
         sha512_hex pf
           ((case order_id n of None \<Rightarrow> ''undefined'' | Some x \<Rightarrow> x) @
            (case status_code n of None \<Rightarrow> ''undefined'' | Some x \<Rightarrow> x) @
            (case gross_amount n of None \<Rightarrow> ''undefined'' | Some x \<Rightarrow> x) @ SERVER_KEY env) = sig)) \<and>
   (verifySignature_callback pf env n \<longleftrightarrow>
      (\<exists>a b c. order_id n = Some a \<and> a \<noteq> [] \<and> status_code n = Some b \<and> b \<noteq> [] \<and>
         gross_amount n = Some c \<and> c \<noteq> [] \<and> signature_key n \<noteq> [] \<and>
         sha512_hex pf (a @ b @ c @ SERVER_KEY env) = signature_key n))"
proof -
  have sandbox: "\<not> IS_PRODUCTION env \<longrightarrow> verifySignature pf env n sig"
    by (simp add: verifySignature_def)
  have present: "IS_PRODUCTION env \<and> order_id n = Some a \<and> status_code n = Some b \<and>
      gross_amount n = Some c \<longrightarrow>
      (verifySignature pf env n sig \<longleftrightarrow> sha512_hex pf (a @ b @ c @ SERVER_KEY env) = sig)"
    by (simp add: verifySignature_def printed_def)
  have general: "IS_PRODUCTION env \<longrightarrow>
      (verifySignature pf env n sig \<longleftrightarrow>
         sha512_hex pf
           ((case order_id n of None \<Rightarrow> ''undefined'' | Some x \<Rightarrow> x) @
            (case status_code n of None \<Rightarrow> ''undefined'' | Some x \<Rightarrow> x) @
            (case gross_amount n of None \<Rightarrow> ''undefined'' | Some x \<Rightarrow> x) @ SERVER_KEY env) = sig)"
    by (simp add: verifySignature_def printed_def)
  have callback: "verifySignature_callback pf env n \<longleftrightarrow>
      (\<exists>a b c. order_id n = Some a \<and> a \<noteq> [] \<and> status_code n = Some b \<and> b \<noteq> [] \<and>
         gross_amount n = Some c \<and> c \<noteq> [] \<and> signature_key n \<noteq> [] \<and>
         sha512_hex pf (a @ b @ c @ SERVER_KEY env) = signature_key n)"
    by (cases "order_id n"; cases "status_code n"; cases "gross_amount n")
       (auto simp add: verifySignature_callback_def falsy_def printed_def)
  show ?thesis using sandbox present general callback by blast
qed

text \<open>
  The theorem outside production (any signature passes); in production (the digest of
  the concatenation passes, the digest of another amount does not, and for a body without
  status code the digest over \<^verbatim>\<open>undefined\<close> passes while the digest over the empty
  string does not); and for the always-enforcing copy (a signed body passes, the same
  body with an empty status code does not).
\<close>

theorem verifySignature_enforcement_witness:
  "verifySignature evalPlatform sandboxEnv ex_note ''anything'' \<and>
   verifySignature evalPlatform productionEnv ex_note ''sha512:ORD-1200100000secret'' \<and>
   \<not> verifySignature evalPlatform productionEnv ex_note ''sha512:ORD-1200100001secret'' \<and>
   verifySignature evalPlatform productionEnv ex_missing_status_code
     ''sha512:ORD-1undefined100000secret'' \<and>
   \<not> verifySignature evalPlatform productionEnv ex_missing_status_code
     ''sha512:ORD-1100000secret'' \<and>
   verifySignature_callback evalPlatform sandboxEnv ex_signed \<and>
   \<not> verifySignature_callback evalPlatform sandboxEnv (ex_signed\<lparr>status_code := Some []\<rparr>)"
proof -
  have s: "\<not> IS_PRODUCTION sandboxEnv" and p: "IS_PRODUCTION productionEnv"
    by (simp_all add: sandboxEnv_def productionEnv_def)
  have fields: "order_id ex_note = Some ''ORD-1''" "status_code ex_note = Some ''200''"
    "gross_amount ex_note = Some ''100000''"
    by (simp_all add: ex_note_def)
  have h: "sha512_hex evalPlatform (''ORD-1'' @ ''200'' @ ''100000'' @ SERVER_KEY productionEnv)
      = ''sha512:ORD-1200100000secret''"
    by (simp add: evalPlatform_def productionEnv_def)
  have a: "verifySignature evalPlatform sandboxEnv ex_note ''anything''"
    using verifySignature_enforcement[where env = sandboxEnv and pf = evalPlatform
        and n = ex_note and sig = "''anything''"] s
    by blast
  have b: "verifySignature evalPlatform productionEnv ex_note ''sha512:ORD-1200100000secret''"
    using verifySignature_enforcement[where env = productionEnv and pf = evalPlatform
        and n = ex_note and sig = "''sha512:ORD-1200100000secret''" and a = "''ORD-1''"
        and b = "''200''" and c = "''100000''"] p h fields
    by blast
  have c: "\<not> verifySignature evalPlatform productionEnv ex_note ''sha512:ORD-1200100001secret''"
    using verifySignature_enforcement[where env = productionEnv and pf = evalPlatform
        and n = ex_note and sig = "''sha512:ORD-1200100001secret''" and a = "''ORD-1''"
        and b = "''200''" and c = "''100000''"] p h fields
    by simp
  have d: "verifySignature evalPlatform productionEnv ex_missing_status_code
     ''sha512:ORD-1undefined100000secret''"
    using verifySignature_enforcement[where env = productionEnv and pf = evalPlatform
        and n = ex_missing_status_code and sig = "''sha512:ORD-1undefined100000secret''"] p
    by (simp add: ex_missing_status_code_def ex_note_def evalPlatform_def productionEnv_def)
  have e: "\<not> verifySignature evalPlatform productionEnv ex_missing_status_code
     ''sha512:ORD-1100000secret''"
    using verifySignature_enforcement[where env = productionEnv and pf = evalPlatform
        and n = ex_missing_status_code and sig = "''sha512:ORD-1100000secret''"] p
    by (simp add: ex_missing_status_code_def ex_note_def evalPlatform_def productionEnv_def)
  have f: "verifySignature_callback evalPlatform sandboxEnv ex_signed"
    using verifySignature_enforcement[where env = sandboxEnv and pf = evalPlatform
        and n = ex_signed]
    by (simp add: evalPlatform_def ex_note_def ex_signed_def sandboxEnv_def)
  have g: "\<not> verifySignature_callback evalPlatform sandboxEnv (ex_signed\<lparr>status_code := Some []\<rparr>)"
    using verifySignature_enforcement[where env = sandboxEnv and pf = evalPlatform
        and n = "ex_signed\<lparr>status_code := Some []\<rparr>"]
    by simp
  show ?thesis using a b c d e f g by blast
qed


section \<open>The attempt budget\<close>

text \<open>
  Claim C6, as stated, says that a call for an invoice whose counter is already 3 fails
  with the attempt-budget error.  For a paid invoice that has used its three attempts the
  call fails with \<^verbatim>\<open>INVOICE_ALREADY_PAID\<close>.
\<close>

theorem generatePaymentLink_exhausted_paid_invoice:
  "paymentAttemptCount ex_exhausted_paid = 3 \<and>
   generatePaymentLink 5000 5100 failingFetch (\<lambda>d. d) ''id-1'' [ex_exhausted_paid] =
     (Inl ''INVOICE_ALREADY_PAID'', [ex_exhausted_paid])"
  by (simp add: generatePaymentLink_def generatePaymentLink_step1_def findById_def
      ex_exhausted_paid_def ex_paid_row_def ex_row_def newInvoice_def)

text \<open>
  Claim C6, amended.  A new invoice has \<^verbatim>\<open>paymentAttemptCount\<close> 0.  In every table
  reached from the empty one every counter is between 0 and 3, also when other requests
  write between the unlocked read and the flush of Step 1.  No sequence of whole
  transactions (none of them overlapped by another writer) lowers the counter of a row,
  and a call of \<^verbatim>\<open>generatePaymentLink\<close>, with whole transactions of other requests
  in between, changes the table by such a sequence.  A call of
  \<^verbatim>\<open>generatePaymentLink\<close> for an invoice whose counter is 3 or more throws and leaves
  the table as it was.  The error is \<^verbatim>\<open>MAX_PAYMENT_ATTEMPTS_REACHED\<close>, unless the
  invoice is \<^verbatim>\<open>PAID\<close> or \<^verbatim>\<open>EXPIRED\<close>: these are tested first and throw their
  own errors.  (When a Step 1 is overlapped by another one, its flush can lower the
  counter: \<open>stale_step1_flush_lowers_counter\<close>.)
\<close>

theorem attempt_budget:
  "paymentAttemptCount (newInvoice now newId oid amt) = 0 \<and>
   (\<forall>r \<in> set (fst (runFines pf fops ([], []))).
        0 \<le> paymentAttemptCount r \<and> paymentAttemptCount r \<le> 3) \<and>
   (\<forall>r \<in> set (runOps pf ops []). 0 \<le> paymentAttemptCount r \<and> paymentAttemptCount r \<le> 3) \<and>
   (\<forall>k < length d. k < length (runOps pf ops d) \<and>
        paymentAttemptCount (d ! k) \<le> paymentAttemptCount (runOps pf ops d ! k)) \<and>
   (\<exists>ops'. snd (generatePaymentLink now later fetch (runOps pf ops) i d) = runOps pf ops' d) \<and>
   (findById i d = Some invoice \<and> 3 \<le> paymentAttemptCount invoice \<longrightarrow>
      generatePaymentLink now later fetch during i d =
        (Inl (if status invoice = PAID then ''INVOICE_ALREADY_PAID''
              else if status invoice = EXPIRED then ''INVOICE_EXPIRED''
              else ''MAX_PAYMENT_ATTEMPTS_REACHED''), d))"
proof -
  have a: "paymentAttemptCount (newInvoice now newId oid amt) = 0"
    by (simp add: newInvoice_def)
  have "fineBudget (runFines pf fops ([], []))"
    by (rule runFines_fineBudget) (simp add: fineBudget_def withinBudget_def)
  then have f: "\<forall>r \<in> set (fst (runFines pf fops ([], []))).
        0 \<le> paymentAttemptCount r \<and> paymentAttemptCount r \<le> 3"
    by (auto simp add: fineBudget_def withinBudget_def in_set_conv_nth)
  have "withinBudget (runOps pf ops [])"
    by (rule runOps_withinBudget) (simp add: withinBudget_def)
  then have b: "\<forall>r \<in> set (runOps pf ops []). 0 \<le> paymentAttemptCount r \<and> paymentAttemptCount r \<le> 3"
    by (auto simp add: withinBudget_def in_set_conv_nth)
  have c: "\<forall>k < length d. k < length (runOps pf ops d) \<and>
        paymentAttemptCount (d ! k) \<le> paymentAttemptCount (runOps pf ops d ! k)"
    using runOps_count by blast
  have e: "findById i d = Some invoice \<and> 3 \<le> paymentAttemptCount invoice \<longrightarrow>
      generatePaymentLink now later fetch during i d =
        (Inl (if status invoice = PAID then ''INVOICE_ALREADY_PAID''
              else if status invoice = EXPIRED then ''INVOICE_EXPIRED''
              else ''MAX_PAYMENT_ATTEMPTS_REACHED''), d)"
    using step1_over_budget generatePaymentLink_step1_fails by blast
  have t: "\<exists>ops'. snd (generatePaymentLink now later fetch (runOps pf ops) i d) = runOps pf ops' d"
    by (rule generatePaymentLink_is_transactions)
  show ?thesis using a f b c t e by blast
qed

text \<open>
  The theorem on a fresh invoice with the gateway down: three calls each consume one
  attempt and leave no timestamp, the fourth call fails and does not touch the counter.
  And on a history from the empty table in which a Step 1 is overlapped by two others:
  the counter stays within the budget.
\<close>

theorem attempt_budget_witness:
  "generatePaymentLink 2000 2100 failingFetch (\<lambda>d. d) ''id-1'' [ex_row] =
     (Inl ''connect ETIMEDOUT'', [ex_row\<lparr>paymentAttemptCount := 1, updatedAt := 2100\<rparr>]) \<and>
   generatePaymentLink 3000 3100 failingFetch (\<lambda>d. d) ''id-1''
       [ex_row\<lparr>paymentAttemptCount := 1, updatedAt := 2100\<rparr>] =
     (Inl ''connect ETIMEDOUT'', [ex_row\<lparr>paymentAttemptCount := 2, updatedAt := 3100\<rparr>]) \<and>
   generatePaymentLink 4000 4100 failingFetch (\<lambda>d. d) ''id-1''
       [ex_row\<lparr>paymentAttemptCount := 2, updatedAt := 3100\<rparr>] =
     (Inl ''connect ETIMEDOUT'', [ex_row\<lparr>paymentAttemptCount := 3, updatedAt := 4100\<rparr>]) \<and>
   generatePaymentLink 5000 5100 failingFetch (\<lambda>d. d) ''id-1''
       [ex_row\<lparr>paymentAttemptCount := 3, updatedAt := 4100\<rparr>] =
     (Inl ''MAX_PAYMENT_ATTEMPTS_REACHED'', [ex_row\<lparr>paymentAttemptCount := 3, updatedAt := 4100\<rparr>]) \<and>
   map paymentAttemptCount
     (fst (runFines evalPlatform
        [Transaction (Create 1000 ''id-1'' ''ORD-1'' 100000), Step1Read ''id-1'',
         Transaction (LinkStep1 2000 ''id-1''), Transaction (LinkStep1 2001 ''id-1''),
         Step1Flush 2002 0] ([], []))) = [1]"
proof -
  have c1: "generatePaymentLink 2000 2100 failingFetch (\<lambda>d. d) ''id-1'' [ex_row] =
     (Inl ''connect ETIMEDOUT'', [ex_row\<lparr>paymentAttemptCount := 1, updatedAt := 2100\<rparr>])"
    by (simp add: link_eval)
  have c2: "generatePaymentLink 3000 3100 failingFetch (\<lambda>d. d) ''id-1''
       [ex_row\<lparr>paymentAttemptCount := 1, updatedAt := 2100\<rparr>] =
     (Inl ''connect ETIMEDOUT'', [ex_row\<lparr>paymentAttemptCount := 2, updatedAt := 3100\<rparr>])"
    by (simp add: link_eval)
  have c3: "generatePaymentLink 4000 4100 failingFetch (\<lambda>d. d) ''id-1''
       [ex_row\<lparr>paymentAttemptCount := 2, updatedAt := 3100\<rparr>] =
     (Inl ''connect ETIMEDOUT'', [ex_row\<lparr>paymentAttemptCount := 3, updatedAt := 4100\<rparr>])"
    by (simp add: link_eval)
  have f: "findById ''id-1'' [ex_row\<lparr>paymentAttemptCount := 3, updatedAt := 4100\<rparr>] =
             Some (ex_row\<lparr>paymentAttemptCount := 3, updatedAt := 4100\<rparr>)"
    by (simp add: findById_def ex_row_def newInvoice_def)
  have c5: "map paymentAttemptCount
     (fst (runFines evalPlatform
        [Transaction (Create 1000 ''id-1'' ''ORD-1'' 100000), Step1Read ''id-1'',
         Transaction (LinkStep1 2000 ''id-1''), Transaction (LinkStep1 2001 ''id-1''),
         Step1Flush 2002 0] ([], []))) = [1]"
    by (simp add: link_eval create_def generatePaymentLink_step1_guard_def
        generatePaymentLink_step1_flush_def)
  have c4: "generatePaymentLink 5000 5100 failingFetch (\<lambda>d. d) ''id-1''
       [ex_row\<lparr>paymentAttemptCount := 3, updatedAt := 4100\<rparr>] =
     (Inl ''MAX_PAYMENT_ATTEMPTS_REACHED'', [ex_row\<lparr>paymentAttemptCount := 3, updatedAt := 4100\<rparr>])"
    using f attempt_budget[where d = "[ex_row\<lparr>paymentAttemptCount := 3, updatedAt := 4100\<rparr>]"
        and i = "''id-1''" and invoice = "ex_row\<lparr>paymentAttemptCount := 3, updatedAt := 4100\<rparr>"
        and now = 5000 and later = 5100 and fetch = failingFetch and during = "\<lambda>d. d"
        and pf = evalPlatform and ops = "[]" and fops = "[]" and newId = "[]" and oid = "[]"
        and amt = 0]
    by (simp add: ex_row_def newInvoice_def)
  show ?thesis using c1 c2 c3 c4 c5 by blast
qed


section \<open>Compensation after a failed gateway call\<close>





section \<open>Link freshness\<close>

text \<open>
  Claim C9, as stated, says that a repeated generation request for an invoice with a
  fresh link returns the existing link.  \<^verbatim>\<open>generatePaymentLink\<close> throws
  \<^verbatim>\<open>ACTIVE_PAYMENT_LINK_EXISTS\<close> instead.
\<close>

theorem generatePaymentLink_throws_on_active_link:
  "paymentLink ex_linked = Some ''https://pay.example/1'' \<and>
   paymentLinkCreatedAt ex_linked = Some 1500 \<and>
   generatePaymentLink 2000 2100 answeringFetch (\<lambda>d. d) ''id-1'' [ex_linked] =
     (Inl ''ACTIVE_PAYMENT_LINK_EXISTS'', [ex_linked])"
  by (simp add: link_eval ex_linked_def)

text \<open>
  Claim C9, amended.  A link is active when \<^verbatim>\<open>paymentLink\<close> is a non-empty string
  and \<^verbatim>\<open>paymentLinkCreatedAt\<close> is less than 30 minutes old.  For an invoice with an
  active link a repeated request creates no link and does not increment the counter:
  \<^verbatim>\<open>generatePaymentLink\<close> throws and leaves the table unchanged (the error is
  \<^verbatim>\<open>ACTIVE_PAYMENT_LINK_EXISTS\<close> unless the invoice is \<^verbatim>\<open>PAID\<close>,
  \<^verbatim>\<open>EXPIRED\<close> or out of attempts), and \<^verbatim>\<open>POST /v1/payment-links\<close> leaves the
  table unchanged and, for an invoice that is neither \<^verbatim>\<open>PAID\<close> nor
  \<^verbatim>\<open>EXPIRED\<close> and has fewer than 3 attempts, returns the existing link with code
  200.  When the link is not active (30 minutes old or older, or absent) such an invoice
  proceeds to regeneration: Step 1 increments the counter and stamps the timestamp, and
  the route answers with the outcome of \<^verbatim>\<open>generatePaymentLink\<close>.
\<close>

theorem link_freshness:
  "(activeLink now invoice \<longleftrightarrow>
      (\<exists>link created. paymentLink invoice = Some link \<and> link \<noteq> [] \<and>
         paymentLinkCreatedAt invoice = Some created \<and> now - created < 30 * 60 * 1000)) \<and>
   (findById i d = Some invoice \<and> activeLink now invoice \<longrightarrow>
      generatePaymentLink now later fetch during i d =
        (Inl (if status invoice = PAID then ''INVOICE_ALREADY_PAID''
              else if status invoice = EXPIRED then ''INVOICE_EXPIRED''
              else if 3 \<le> paymentAttemptCount invoice then ''MAX_PAYMENT_ATTEMPTS_REACHED''
              else ''ACTIVE_PAYMENT_LINK_EXISTS''), d)) \<and>
   (findByOrderId oid d = Some invoice \<and> activeLink now invoice \<longrightarrow>
      snd (paymentLinksRoute now later fetch during locks oid d) = d) \<and>
   (oid \<noteq> [] \<and> (''payment_link_'' @ oid) \<notin> locks \<and> findByOrderId oid d = Some invoice \<and>
    status invoice \<noteq> PAID \<and> status invoice \<noteq> EXPIRED \<and> paymentAttemptCount invoice < 3 \<and>
    activeLink now invoice \<longrightarrow>
      (\<exists>expires_in. paymentLinksRoute now later fetch during locks oid d =
         (Json (PaymentUrl (paymentLink invoice) (orderId invoice) expires_in) 200, d))) \<and>
   (findById i d = Some invoice \<and> status invoice \<noteq> PAID \<and> status invoice \<noteq> EXPIRED \<and>
    paymentAttemptCount invoice < 3 \<and> \<not> activeLink now invoice \<longrightarrow>
      fst (generatePaymentLink_step1 now i d) =
        Inr (invoice\<lparr>paymentAttemptCount := paymentAttemptCount invoice + 1,
                     paymentLinkCreatedAt := Some now, updatedAt := now\<rparr>)) \<and>
   (oid \<noteq> [] \<and> (''payment_link_'' @ oid) \<notin> locks \<and> findByOrderId oid d = Some invoice \<and>
    status invoice \<noteq> PAID \<and> status invoice \<noteq> EXPIRED \<and> paymentAttemptCount invoice < 3 \<and>
    \<not> activeLink now invoice \<longrightarrow>
      paymentLinksRoute now later fetch during locks oid d =
        (case generatePaymentLink now later fetch during (invoiceId invoice) d of
           (Inr updatedPayment, d') \<Rightarrow>
             (Json (PaymentLinkCreated (paymentLink updatedPayment) (orderId updatedPayment)
                      (''PL-'' @ invoiceId updatedPayment) (30 * 60)) 200, d')
         | (Inl message, d') \<Rightarrow> (Json (ErrorBody ''Internal server error'') 500, d')))"
proof -
  have a: "activeLink now invoice \<longleftrightarrow>
      (\<exists>link created. paymentLink invoice = Some link \<and> link \<noteq> [] \<and>
         paymentLinkCreatedAt invoice = Some created \<and> now - created < 30 * 60 * 1000)"
    by (rule activeLink_iff)
  have b: "findById i d = Some invoice \<and> activeLink now invoice \<longrightarrow>
      generatePaymentLink now later fetch during i d =
        (Inl (if status invoice = PAID then ''INVOICE_ALREADY_PAID''
              else if status invoice = EXPIRED then ''INVOICE_EXPIRED''
              else if 3 \<le> paymentAttemptCount invoice then ''MAX_PAYMENT_ATTEMPTS_REACHED''
              else ''ACTIVE_PAYMENT_LINK_EXISTS''), d)"
    using step1_active_link generatePaymentLink_step1_fails by blast
  have c: "findByOrderId oid d = Some invoice \<and> activeLink now invoice \<longrightarrow>
      snd (paymentLinksRoute now later fetch during locks oid d) = d"
    using paymentLinksRoute_active_no_write by blast
  have e: "oid \<noteq> [] \<and> (''payment_link_'' @ oid) \<notin> locks \<and> findByOrderId oid d = Some invoice \<and>
    status invoice \<noteq> PAID \<and> status invoice \<noteq> EXPIRED \<and> paymentAttemptCount invoice < 3 \<and>
    activeLink now invoice \<longrightarrow>
      (\<exists>expires_in. paymentLinksRoute now later fetch during locks oid d =
         (Json (PaymentUrl (paymentLink invoice) (orderId invoice) expires_in) 200, d))"
  proof (intro impI, elim conjE)
    assume h: "oid \<noteq> []" "(''payment_link_'' @ oid) \<notin> locks" "findByOrderId oid d = Some invoice"
      "status invoice \<noteq> PAID" "status invoice \<noteq> EXPIRED" "paymentAttemptCount invoice < 3"
      and act: "activeLink now invoice"
    from act obtain age where "linkAge now invoice = Some age" and "age < maxAge"
      by (auto simp add: activeLink_def split: option.splits)
    from paymentLinksRoute_active_link[OF h this]
    show "\<exists>expires_in. paymentLinksRoute now later fetch during locks oid d =
         (Json (PaymentUrl (paymentLink invoice) (orderId invoice) expires_in) 200, d)"
      by blast
  qed
  have f: "findById i d = Some invoice \<and> status invoice \<noteq> PAID \<and> status invoice \<noteq> EXPIRED \<and>
    paymentAttemptCount invoice < 3 \<and> \<not> activeLink now invoice \<longrightarrow>
      fst (generatePaymentLink_step1 now i d) =
        Inr (invoice\<lparr>paymentAttemptCount := paymentAttemptCount invoice + 1,
                     paymentLinkCreatedAt := Some now, updatedAt := now\<rparr>)"
    using step1_success[of i d invoice now] by auto
  have g: "oid \<noteq> [] \<and> (''payment_link_'' @ oid) \<notin> locks \<and> findByOrderId oid d = Some invoice \<and>
    status invoice \<noteq> PAID \<and> status invoice \<noteq> EXPIRED \<and> paymentAttemptCount invoice < 3 \<and>
    \<not> activeLink now invoice \<longrightarrow>
      paymentLinksRoute now later fetch during locks oid d =
        (case generatePaymentLink now later fetch during (invoiceId invoice) d of
           (Inr updatedPayment, d') \<Rightarrow>
             (Json (PaymentLinkCreated (paymentLink updatedPayment) (orderId updatedPayment)
                      (''PL-'' @ invoiceId updatedPayment) (30 * 60)) 200, d')
         | (Inl message, d') \<Rightarrow> (Json (ErrorBody ''Internal server error'') 500, d'))"
    using paymentLinksRoute_stale_link by blast
  show ?thesis using a b c e f g by blast
qed

text \<open>
  The theorem on an invoice whose link is 500 ms old (the service throws, the route
  returns the link) and on the same invoice 30 minutes after the link was created (Step 1
  consumes the second attempt).
\<close>

theorem link_freshness_witness:
  "generatePaymentLink 2000 2100 answeringFetch (\<lambda>d. d) ''id-1'' [ex_linked] =
     (Inl ''ACTIVE_PAYMENT_LINK_EXISTS'', [ex_linked]) \<and>
   paymentLinksRoute 2000 2100 answeringFetch (\<lambda>d. d) {} ''ORD-1'' [ex_linked] =
     (Json (PaymentUrl (Some ''https://pay.example/1'') ''ORD-1'' 1800) 200, [ex_linked]) \<and>
   fst (generatePaymentLink_step1 1801500 ''id-1'' [ex_linked]) =
     Inr (ex_linked\<lparr>paymentAttemptCount := 2, paymentLinkCreatedAt := Some 1801500,
                    updatedAt := 1801500\<rparr>)"
proof -
  have fresh: "activeLink 2000 ex_linked"
    by (simp add: activeLink_def linkAge_def maxAge_def ex_linked_def)
  have stale: "\<not> activeLink 1801500 ex_linked"
    by (simp add: activeLink_def linkAge_def maxAge_def ex_linked_def)
  have f1: "findById ''id-1'' [ex_linked] = Some ex_linked"
    by (simp add: findById_def ex_linked_def ex_row_def newInvoice_def)
  have st: "status ex_linked \<noteq> PAID \<and> status ex_linked \<noteq> EXPIRED \<and> paymentAttemptCount ex_linked < 3"
    by (simp add: ex_linked_def ex_row_def newInvoice_def)
  have a: "generatePaymentLink 2000 2100 answeringFetch (\<lambda>d. d) ''id-1'' [ex_linked] =
     (Inl ''ACTIVE_PAYMENT_LINK_EXISTS'', [ex_linked])"
    using link_freshness[where now = 2000 and invoice = ex_linked and i = "''id-1''"
        and d = "[ex_linked]" and later = 2100 and fetch = answeringFetch and during = "\<lambda>d. d"
        and oid = "''ORD-1''" and locks = "{}"] fresh f1 st
    by simp
  have b: "paymentLinksRoute 2000 2100 answeringFetch (\<lambda>d. d) {} ''ORD-1'' [ex_linked] =
     (Json (PaymentUrl (Some ''https://pay.example/1'') ''ORD-1'' 1800) 200, [ex_linked])"
    by (simp add: paymentLinksRoute_def findByOrderId_def linkAge_def maxAge_def Let_def
        ex_linked_def ex_row_def newInvoice_def)
  have c: "fst (generatePaymentLink_step1 1801500 ''id-1'' [ex_linked]) =
     Inr (ex_linked\<lparr>paymentAttemptCount := 2, paymentLinkCreatedAt := Some 1801500,
                    updatedAt := 1801500\<rparr>)"
    using link_freshness[where now = 1801500 and invoice = ex_linked and i = "''id-1''"
        and d = "[ex_linked]" and later = 2100 and fetch = answeringFetch and during = "\<lambda>d. d"
        and oid = "''ORD-1''" and locks = "{}"] stale f1 st
    by (simp add: ex_linked_def)
  show ?thesis using a b c by blast
qed


section \<open>Soft-deleted rows\<close>



end
